theory Spec2Isabelle
  imports Complex_Main
begin

section \<open>Vanilla NeRF: the field module and the graph orchestrator\<close>

text \<open>
  A shallow embedding of \<^verbatim>\<open>src/mattport/nerf/graph/vanilla_nerf.py\<close>: the classes
  \<^verbatim>\<open>NeRFField\<close> and \<^verbatim>\<open>NeRFGraph\<close>. Tensors are nested lists of real numbers
  (idealised arithmetic: floating-point rounding is not modelled). Every Python exception
  is a value of the type \<open>error\<close>, and a call that may raise returns \<open>error + 'a\<close>.
\<close>

subsection \<open>Tensors, errors, dictionaries\<close>

text \<open>A per-ray tensor \<open>[ray, channel]\<close> and a per-sample tensor \<open>[ray, sample, channel]\<close>.\<close>

type_synonym tensor2 = "real list list"
type_synonym tensor3 = "real list list list"

datatype error = ConfigurationError | KeyError | TypeError | AttributeError | ShapeError

text \<open>Sequencing of calls that may raise: the first exception ends the computation.\<close>

definition bind :: "error + 'a \<Rightarrow> ('a \<Rightarrow> error + 'b) \<Rightarrow> error + 'b" where
  "bind m f = (case m of Inl e \<Rightarrow> Inl e | Inr x \<Rightarrow> f x)"

text \<open>Python's \<^verbatim>\<open>d[k]\<close>: a missing key raises \<^verbatim>\<open>KeyError\<close>.\<close>

definition getitem :: "('k \<rightharpoonup> 'v) \<Rightarrow> 'k \<Rightarrow> error + 'v" where
  "getitem d k = (case d k of None \<Rightarrow> Inl KeyError | Some v \<Rightarrow> Inr v)"

text \<open>
  \<^verbatim>\<open>torch.cat([a, b], dim=-1)\<close> on per-sample tensors: the leading dimensions must agree,
  the channels of each sample are appended, those of \<open>a\<close> first.
\<close>

definition torch_cat_last :: "tensor3 \<Rightarrow> tensor3 \<Rightarrow> error + tensor3" where
  "torch_cat_last a b =
     (if length a = length b \<and> list_all2 (\<lambda>r s. length r = length s) a b
      then Inr (map2 (map2 (@)) a b)
      else Inl ShapeError)"

subsection \<open>Data model\<close>

text \<open>
  Modelled from the spec: the enum \<^verbatim>\<open>FieldHeadNames\<close> is imported from
  \<^verbatim>\<open>mattport.nerf.field_modules.field_heads\<close>, which is not among the sources. The spec
  (section 3) lists the output kinds as "DENSITY, RGB, ..."; the further kinds are
  \<open>OtherHead\<close>.
\<close>

datatype FieldHeadNames = RGB | DENSITY | OtherHead nat

type_synonym FieldOutputs = "FieldHeadNames \<rightharpoonup> tensor3"

text \<open>
  Modelled from the spec: \<^verbatim>\<open>RayBundle\<close> and \<^verbatim>\<open>RaySamples\<close> are imported from
  \<^verbatim>\<open>mattport.structures.rays\<close>, which is not among the sources. Section 3 of the spec
  gives a bundle origins and directions, and gives the samples of a bundle a position, a
  direction, a depth \<open>t\<close> and interval boundaries per sample.
\<close>

record RayBundle =
  origins :: tensor2
  bundle_directions :: tensor2

record RaySamples =
  positions :: tensor3
  directions :: tensor3
  ts :: tensor2
  bin_starts :: tensor2
  bin_ends :: tensor2

text \<open>
  A learnable \<^verbatim>\<open>Parameter\<close> is an object: its identity is an address, its current value
  is read from the parameter store.
\<close>

type_synonym parameter = nat
type_synonym store = "parameter \<Rightarrow> tensor2"

subsection \<open>The collaborating modules\<close>

text \<open>
  Modelled from the spec: the classes \<^verbatim>\<open>NeRFEncoding\<close>, \<^verbatim>\<open>MLP\<close>, \<^verbatim>\<open>RGBFieldHead\<close> and
  \<^verbatim>\<open>DensityFieldHead\<close> are imported from \<^verbatim>\<open>mattport.nerf.field_modules\<close>, which is not
  among the sources. A module object is the configuration its constructor receives and the
  list of the parameters it owns. A constructor takes the next free address and returns
  the next free address after its allocations.
\<close>

record NeRFEncoding =
  enc_in_dim :: int
  num_frequencies :: int
  min_freq_exp :: real
  max_freq_exp :: real
  include_input :: bool

text \<open>
  Modelled from the spec: \<^verbatim>\<open>NeRFEncoding.get_out_dim\<close> is not among the sources. Section 8:
  the output dimension is \<open>D*(1+2F)\<close> when the input is included and \<open>D*2F\<close> otherwise.
\<close>

definition NeRFEncoding_get_out_dim :: "NeRFEncoding \<Rightarrow> int" where
  "NeRFEncoding_get_out_dim e =
     (if include_input e then enc_in_dim e * (1 + 2 * num_frequencies e)
      else enc_in_dim e * (2 * num_frequencies e))"

record MLP =
  mlp_in_dim :: int
  mlp_out_dim :: int
  mlp_num_layers :: int
  mlp_layer_width :: int
  mlp_skip_connections :: "int list"
  mlp_parameters :: "parameter list"

text \<open>
  Modelled from the spec: \<^verbatim>\<open>MLP.__init__\<close> is not among the sources. Section 4.2: the
  construction fails if a skip index references a layer outside \<open>[0, L)\<close>; section 7 calls
  the failure a configuration error. Each of the \<open>L\<close> layers is a linear layer owning a
  weight and a bias, allocated at construction. The activation that the constructor
  receives belongs to the forward computation, which is a parameter of the model.
\<close>

definition MLP_init ::
  "int \<Rightarrow> int \<Rightarrow> int \<Rightarrow> int \<Rightarrow> int list \<Rightarrow> parameter \<Rightarrow> error + (MLP \<times> parameter)" where
  "MLP_init in_dim out_dim n_layers width skips nxt =
     (if list_ex (\<lambda>s. s < 0 \<or> n_layers \<le> s) skips then Inl ConfigurationError
      else Inr (\<lparr>mlp_in_dim = in_dim, mlp_out_dim = out_dim, mlp_num_layers = n_layers,
                 mlp_layer_width = width, mlp_skip_connections = skips,
                 mlp_parameters = [nxt ..< nxt + 2 * nat n_layers]\<rparr>,
                nxt + 2 * nat n_layers))"

text \<open>
  Modelled from the spec: \<^verbatim>\<open>MLP.get_out_dim\<close> is not among the sources. Section 4.2: the
  MLP exposes the dimension of its output, the \<^verbatim>\<open>out_dim\<close> it was built with.
\<close>

definition MLP_get_out_dim :: "MLP \<Rightarrow> int" where
  "MLP_get_out_dim m = mlp_out_dim m"

record RGBFieldHead =
  rgb_head_in_dim :: int
  rgb_head_parameters :: "parameter list"

record DensityFieldHead =
  density_head_in_dim :: int
  density_head_parameters :: "parameter list"

text \<open>
  Modelled from the spec: the heads' constructors are not among the sources. Section 4.3:
  each head is one linear map (a weight and a bias) followed by an activation.
\<close>

definition RGBFieldHead_init :: "int \<Rightarrow> parameter \<Rightarrow> RGBFieldHead \<times> parameter" where
  "RGBFieldHead_init in_dim nxt =
     (\<lparr>rgb_head_in_dim = in_dim, rgb_head_parameters = [nxt, nxt + 1]\<rparr>, nxt + 2)"

definition DensityFieldHead_init :: "int \<Rightarrow> parameter \<Rightarrow> DensityFieldHead \<times> parameter" where
  "DensityFieldHead_init in_dim nxt =
     (\<lparr>density_head_in_dim = in_dim, density_head_parameters = [nxt, nxt + 1]\<rparr>, nxt + 2)"

text \<open>
  Modelled from the spec: the samplers, the renderers and the loss are imported from
  \<^verbatim>\<open>mattport.nerf.sampler\<close>, \<^verbatim>\<open>mattport.nerf.renderers\<close> and \<^verbatim>\<open>mattport.nerf.loss\<close>, which
  are not among the sources. Each object is the configuration that its constructor call in
  \<^verbatim>\<open>populate_modules\<close> passes; the background colour of the RGB renderer is optional
  (section 4.6).
\<close>

record UniformSampler =
  sampler_near_plane :: real
  sampler_far_plane :: real
  sampler_num_samples :: int

record PDFSampler =
  pdf_num_samples :: int

record RGBRenderer =
  background_color :: "real list option"

datatype AccumulationRenderer = AccumulationRenderer
datatype DepthRenderer = DepthRenderer
datatype MSELoss = MSELoss

text \<open>
  The forward computations of the modules that are not among the sources are parameters
  of the model: what a call of the encoder, the MLP, a head, a sampler, the loss and the
  base class's loss aggregation returns. Each reads the module object, the parameter store
  and its arguments, and may raise.
\<close>

record collaborators =
  NeRFEncoding_forward :: "NeRFEncoding \<Rightarrow> tensor3 \<Rightarrow> error + tensor3"
  MLP_forward :: "MLP \<Rightarrow> store \<Rightarrow> tensor3 \<Rightarrow> error + tensor3"
  RGBFieldHead_forward :: "RGBFieldHead \<Rightarrow> store \<Rightarrow> tensor3 \<Rightarrow> error + FieldOutputs"
  DensityFieldHead_forward :: "DensityFieldHead \<Rightarrow> store \<Rightarrow> tensor3 \<Rightarrow> error + FieldOutputs"
  UniformSampler_forward :: "UniformSampler \<Rightarrow> RayBundle \<Rightarrow> error + RaySamples"
  PDFSampler_forward :: "PDFSampler \<Rightarrow> RaySamples \<Rightarrow> tensor2 \<Rightarrow> error + RaySamples"
  MSELoss_forward :: "MSELoss \<Rightarrow> tensor2 \<Rightarrow> tensor2 \<Rightarrow> error + real"
  get_aggregated_loss_from_loss_dict :: "(string \<rightharpoonup> real) \<Rightarrow> error + real"

text \<open>
  Modelled from the spec: what the heads return is not among the sources. Section 4.3: each
  head is tagged with an output-kind identifier used as the key in FieldOutputs; the RGB
  head returns one entry under \<open>RGB\<close>, the density head one entry under \<open>DENSITY\<close>.
\<close>

definition heads_tagged :: "collaborators \<Rightarrow> bool" where
  "heads_tagged env =
     ((\<forall>h st x out. RGBFieldHead_forward env h st x = Inr out \<longrightarrow> dom out = {RGB}) \<and>
      (\<forall>h st x out. DensityFieldHead_forward env h st x = Inr out \<longrightarrow> dom out = {DENSITY}))"

subsection \<open>NeRFField\<close>

record NeRFField =
  num_layers :: int
  layer_width :: int
  skip_connections :: "int list"
  encoding_xyz :: NeRFEncoding
  encoding_dir :: NeRFEncoding
  mlp_base :: MLP
  mlp_rgb :: MLP
  field_output_rgb :: RGBFieldHead
  field_output_density :: DensityFieldHead

text \<open>\<^verbatim>\<open>build_encodings\<close>: the two encoders, for positions and for directions.\<close>

definition build_encodings :: "NeRFEncoding \<times> NeRFEncoding" where
  "build_encodings =
     (\<lparr>enc_in_dim = 3, num_frequencies = 10, min_freq_exp = 0, max_freq_exp = 8,
       include_input = True\<rparr>,
      \<lparr>enc_in_dim = 3, num_frequencies = 4, min_freq_exp = 0, max_freq_exp = 4,
       include_input = True\<rparr>)"

text \<open>\<^verbatim>\<open>build_mlp_base\<close>, from the attributes of \<open>self\<close> it reads.\<close>

definition build_mlp_base ::
  "int \<Rightarrow> int \<Rightarrow> int list \<Rightarrow> NeRFEncoding \<Rightarrow> parameter \<Rightarrow> error + (MLP \<times> parameter)" where
  "build_mlp_base n_layers width skips enc_xyz nxt =
     MLP_init (NeRFEncoding_get_out_dim enc_xyz) width n_layers width skips nxt"

text \<open>\<^verbatim>\<open>build_mlp_rgb\<close>: two layers of half the width, no skip connection.\<close>

definition build_mlp_rgb ::
  "int \<Rightarrow> MLP \<Rightarrow> NeRFEncoding \<Rightarrow> parameter \<Rightarrow> error + (MLP \<times> parameter)" where
  "build_mlp_rgb width base enc_dir nxt =
     MLP_init (MLP_get_out_dim base + NeRFEncoding_get_out_dim enc_dir) (width div 2) 2
       (width div 2) [] nxt"

text \<open>\<^verbatim>\<open>build_heads\<close>: the RGB head on the second MLP, the density head on the base MLP.\<close>

definition build_heads ::
  "MLP \<Rightarrow> MLP \<Rightarrow> parameter \<Rightarrow> (RGBFieldHead \<times> DensityFieldHead) \<times> parameter" where
  "build_heads rgb_mlp base nxt =
     (let (h_rgb, n1) = RGBFieldHead_init (MLP_get_out_dim rgb_mlp) nxt;
          (h_density, n2) = DensityFieldHead_init (MLP_get_out_dim base) n1
      in ((h_rgb, h_density), n2))"

text \<open>\<^verbatim>\<open>NeRFField.__init__\<close>: encodings, base MLP, RGB MLP, heads, in this order.\<close>

definition NeRFField_init ::
  "int \<Rightarrow> int \<Rightarrow> int list \<Rightarrow> parameter \<Rightarrow> error + (NeRFField \<times> parameter)" where
  "NeRFField_init n_layers width skips nxt =
     (let (enc_xyz, enc_dir) = build_encodings in
      bind (build_mlp_base n_layers width skips enc_xyz nxt) (\<lambda>(base, n1).
      bind (build_mlp_rgb width base enc_dir n1) (\<lambda>(rgb_mlp, n2).
      let ((h_rgb, h_density), n3) = build_heads rgb_mlp base n2 in
      Inr (\<lparr>num_layers = n_layers, layer_width = width, skip_connections = skips,
            encoding_xyz = enc_xyz, encoding_dir = enc_dir, mlp_base = base,
            mlp_rgb = rgb_mlp, field_output_rgb = h_rgb,
            field_output_density = h_density\<rparr>, n3))))"

text \<open>
  \<^verbatim>\<open>NeRFField.forward\<close>: the second MLP receives \<^verbatim>\<open>torch.cat([encoded_dir, base_mlp_out])\<close>;
  the outputs are an empty dictionary updated with the RGB head's entries and then with
  the density head's.
\<close>

definition forward :: "collaborators \<Rightarrow> NeRFField \<Rightarrow> store \<Rightarrow> RaySamples \<Rightarrow> error + FieldOutputs" where
  "forward env self st ray_samples =
     (let pos = positions ray_samples;
          dir = directions ray_samples in
      bind (NeRFEncoding_forward env (encoding_xyz self) pos) (\<lambda>encoded_xyz.
      bind (NeRFEncoding_forward env (encoding_dir self) dir) (\<lambda>encoded_dir.
      bind (MLP_forward env (mlp_base self) st encoded_xyz) (\<lambda>base_mlp_out.
      bind (torch_cat_last encoded_dir base_mlp_out) (\<lambda>rgb_mlp_in.
      bind (MLP_forward env (mlp_rgb self) st rgb_mlp_in) (\<lambda>rgb_mlp_out.
      bind (RGBFieldHead_forward env (field_output_rgb self) st rgb_mlp_out) (\<lambda>field_rgb_output.
      bind (DensityFieldHead_forward env (field_output_density self) st base_mlp_out)
        (\<lambda>field_density_out.
      Inr (Map.empty ++ field_rgb_output ++ field_density_out)))))))))"

text \<open>\<^verbatim>\<open>list(field.parameters())\<close>: the parameters of the sub-modules in the order of their
  registration; the encoders own none.\<close>

definition parameters :: "NeRFField \<Rightarrow> parameter list" where
  "parameters self =
     mlp_parameters (mlp_base self) @ mlp_parameters (mlp_rgb self) @
     rgb_head_parameters (field_output_rgb self) @
     density_head_parameters (field_output_density self)"

text \<open>The architecture of a field: everything but the identity of its parameters.\<close>

definition architecture :: "NeRFField \<Rightarrow> NeRFField" where
  "architecture self =
     self\<lparr>mlp_base := (mlp_base self)\<lparr>mlp_parameters := []\<rparr>,
          mlp_rgb := (mlp_rgb self)\<lparr>mlp_parameters := []\<rparr>,
          field_output_rgb := (field_output_rgb self)\<lparr>rgb_head_parameters := []\<rparr>,
          field_output_density := (field_output_density self)\<lparr>density_head_parameters := []\<rparr>\<rparr>"

subsection \<open>Weights and renderers\<close>

text \<open>
  Modelled from the spec: \<^verbatim>\<open>RaySamples.get_weights\<close> is not among the sources. Section 4.6:
  alpha per sample is \<open>1 - exp(-density * interval_length)\<close>; the weight is alpha times the
  transmittance, the product of \<open>1 - alpha\<close> over the preceding samples of the ray, which is
  1 at the first sample. The samples of a ray are visited in increasing \<open>t\<close>.
\<close>

definition alpha :: "real \<Rightarrow> real \<Rightarrow> real" where
  "alpha density interval_length = 1 - exp (- density * interval_length)"

fun weights_from :: "real \<Rightarrow> real list \<Rightarrow> real list" where
  "weights_from transmittance [] = []"
| "weights_from transmittance (a # as) =
     a * transmittance # weights_from (transmittance * (1 - a)) as"

definition ray_weights :: "real list \<Rightarrow> real list \<Rightarrow> real list list \<Rightarrow> real list" where
  "ray_weights starts ends densities =
     weights_from 1 (map (\<lambda>(d, s, e). alpha (hd d) (e - s)) (zip densities (zip starts ends)))"

text \<open>The densities are \<open>[ray, sample, 1]\<close>; a shape that does not match the samples raises.\<close>

definition get_weights :: "RaySamples \<Rightarrow> tensor3 \<Rightarrow> error + tensor2" where
  "get_weights self densities =
     (if list_all2 (\<lambda>d s. length d = length s) densities (bin_starts self) \<and>
         list_all2 (\<lambda>d e. length d = length e) densities (bin_ends self) \<and>
         list_all (list_all (\<lambda>d. length d = 1)) densities
      then Inr (map (\<lambda>(d, s, e). ray_weights s e d)
                  (zip densities (zip (bin_starts self) (bin_ends self))))
      else Inl ShapeError)"

text \<open>
  Modelled from the spec: the constant \<^verbatim>\<open>colors.WHITE\<close> and the renderers are imported from
  \<^verbatim>\<open>mattport.structures\<close> and \<^verbatim>\<open>mattport.nerf.renderers\<close>, which are not among the
  sources. Section 4.6: the RGB output is the weighted sum of the per-sample RGB, plus the
  optional background colour weighted by \<open>1 - sum(weights)\<close>; the depth output is the
  weighted sum of the per-sample \<open>t\<close>; the accumulation output is the sum of the weights.
  Section 8 gives white as \<open>(1,1,1)\<close>. The value a renderer returns stands for the
  \<^verbatim>\<open>RendererOutputs\<close> object and the attribute read from it.
\<close>

definition WHITE :: "real list" where
  "WHITE = [1, 1, 1]"

definition weighted_sum :: "real list \<Rightarrow> real list \<Rightarrow> real" where
  "weighted_sum ws xs = sum_list (map2 (*) ws xs)"

definition render_ray_rgb :: "real list option \<Rightarrow> real list list \<Rightarrow> real list \<Rightarrow> real list" where
  "render_ray_rgb bg rgb ws =
     map (\<lambda>c. weighted_sum ws (map (\<lambda>v. v ! c) rgb) +
              (case bg of None \<Rightarrow> 0 | Some b \<Rightarrow> b ! c * (1 - sum_list ws)))
       [0 ..< 3]"

definition RGBRenderer_forward :: "RGBRenderer \<Rightarrow> tensor3 \<Rightarrow> tensor2 \<Rightarrow> error + tensor2" where
  "RGBRenderer_forward self rgb weights =
     (if list_all2 (\<lambda>r w. length r = length w) rgb weights \<and>
         list_all (list_all (\<lambda>v. length v = 3)) rgb \<and>
         (case background_color self of None \<Rightarrow> True | Some b \<Rightarrow> length b = 3)
      then Inr (map2 (render_ray_rgb (background_color self)) rgb weights)
      else Inl ShapeError)"

definition AccumulationRenderer_forward :: "AccumulationRenderer \<Rightarrow> tensor2 \<Rightarrow> error + tensor2" where
  "AccumulationRenderer_forward self weights = Inr (map (\<lambda>ws. [sum_list ws]) weights)"

definition DepthRenderer_forward :: "DepthRenderer \<Rightarrow> tensor2 \<Rightarrow> tensor2 \<Rightarrow> error + tensor2" where
  "DepthRenderer_forward self weights t =
     (if list_all2 (\<lambda>w x. length w = length x) weights t
      then Inr (map2 (\<lambda>ws xs. [weighted_sum ws xs]) weights t)
      else Inl ShapeError)"

subsection \<open>NeRFGraph\<close>

text \<open>The attributes \<^verbatim>\<open>__init__\<close> assigns before the base class's constructor runs.\<close>

record NeRFGraph_args =
  near_plane :: real
  far_plane :: real
  num_coarse_samples :: int
  num_importance_samples :: int

text \<open>
  The graph after \<^verbatim>\<open>populate_modules\<close>. The two fields are \<^verbatim>\<open>None\<close> until
  \<^verbatim>\<open>populate_fields\<close> assigns them. The three image metrics are used by
  \<^verbatim>\<open>log_test_image_outputs\<close> only and are left out.
\<close>

record NeRFGraph = NeRFGraph_args +
  field_coarse :: "NeRFField option"
  field_fine :: "NeRFField option"
  sampler_uniform :: UniformSampler
  sampler_pdf :: PDFSampler
  renderer_rgb :: RGBRenderer
  renderer_accumulation :: AccumulationRenderer
  renderer_depth :: DepthRenderer
  rgb_loss :: MSELoss

text \<open>\<^verbatim>\<open>populate_fields\<close>: two calls of \<^verbatim>\<open>NeRFField()\<close> with the default arguments; the
  values assigned to \<^verbatim>\<open>field_coarse\<close> and \<^verbatim>\<open>field_fine\<close>.\<close>

definition populate_fields :: "parameter \<Rightarrow> error + ((NeRFField \<times> NeRFField) \<times> parameter)" where
  "populate_fields nxt =
     bind (NeRFField_init 8 256 [4] nxt) (\<lambda>(coarse, n1).
     bind (NeRFField_init 8 256 [4] n1) (\<lambda>(fine, n2).
     Inr ((coarse, fine), n2)))"

definition populate_modules :: "NeRFGraph_args \<Rightarrow> parameter \<Rightarrow> error + (NeRFGraph \<times> parameter)" where
  "populate_modules self nxt =
     (let s_uniform = \<lparr>sampler_near_plane = near_plane self, sampler_far_plane = far_plane self,
                       sampler_num_samples = num_coarse_samples self\<rparr>;
          s_pdf = \<lparr>pdf_num_samples = num_importance_samples self\<rparr> in
      bind (populate_fields nxt) (\<lambda>((coarse, fine), n).
      Inr (\<lparr>near_plane = near_plane self, far_plane = far_plane self,
            num_coarse_samples = num_coarse_samples self,
            num_importance_samples = num_importance_samples self,
            field_coarse = Some coarse, field_fine = Some fine,
            sampler_uniform = s_uniform, sampler_pdf = s_pdf,
            renderer_rgb = \<lparr>background_color = Some WHITE\<rparr>,
            renderer_accumulation = AccumulationRenderer,
            renderer_depth = DepthRenderer,
            rgb_loss = MSELoss\<rparr>, n)))"

text \<open>\<^verbatim>\<open>get_param_groups\<close>: one group, the coarse field's parameters, then the fine field's.\<close>

definition field_parameters :: "NeRFField option \<Rightarrow> error + parameter list" where
  "field_parameters f = (case f of None \<Rightarrow> Inl AttributeError | Some fld \<Rightarrow> Inr (parameters fld))"

definition get_param_groups :: "NeRFGraph \<Rightarrow> error + (string \<rightharpoonup> parameter list)" where
  "get_param_groups self =
     bind (field_parameters (field_coarse self)) (\<lambda>ps_coarse.
     bind (field_parameters (field_fine self)) (\<lambda>ps_fine.
     Inr (Map.empty(''fields'' \<mapsto> ps_coarse @ ps_fine))))"

text \<open>Calling a field attribute: \<^verbatim>\<open>None\<close> is not callable.\<close>

definition call_field ::
  "collaborators \<Rightarrow> NeRFField option \<Rightarrow> store \<Rightarrow> RaySamples \<Rightarrow> error + FieldOutputs" where
  "call_field env f st ray_samples =
     (case f of None \<Rightarrow> Inl TypeError | Some fld \<Rightarrow> forward env fld st ray_samples)"

text \<open>\<^verbatim>\<open>get_outputs\<close>: the coarse stage, the fine stage, the dictionary of six outputs.\<close>

definition get_outputs ::
  "collaborators \<Rightarrow> NeRFGraph \<Rightarrow> store \<Rightarrow> RayBundle \<Rightarrow> error + (string \<rightharpoonup> tensor2)" where
  "get_outputs env self st ray_bundle =
     bind (UniformSampler_forward env (sampler_uniform self) ray_bundle) (\<lambda>uniform_ray_samples.
     bind (call_field env (field_coarse self) st uniform_ray_samples) (\<lambda>coarse_field_outputs.
     bind (getitem coarse_field_outputs DENSITY) (\<lambda>coarse_density.
     bind (get_weights uniform_ray_samples coarse_density) (\<lambda>coarse_weights.
     bind (getitem coarse_field_outputs RGB) (\<lambda>coarse_rgb.
     bind (RGBRenderer_forward (renderer_rgb self) coarse_rgb coarse_weights)
       (\<lambda>coarse_renderer_outputs.
     bind (AccumulationRenderer_forward (renderer_accumulation self) coarse_weights)
       (\<lambda>coarse_renderer_accumulation.
     bind (DepthRenderer_forward (renderer_depth self) coarse_weights (ts uniform_ray_samples))
       (\<lambda>coarse_renderer_depth.
     bind (PDFSampler_forward env (sampler_pdf self) uniform_ray_samples coarse_weights)
       (\<lambda>pdf_ray_samples.
     bind (call_field env (field_fine self) st pdf_ray_samples) (\<lambda>fine_field_outputs.
     bind (getitem fine_field_outputs DENSITY) (\<lambda>fine_density.
     bind (get_weights pdf_ray_samples fine_density) (\<lambda>fine_weights.
     bind (getitem fine_field_outputs RGB) (\<lambda>fine_rgb.
     bind (RGBRenderer_forward (renderer_rgb self) fine_rgb fine_weights)
       (\<lambda>fine_renderer_outputs.
     bind (AccumulationRenderer_forward (renderer_accumulation self) fine_weights)
       (\<lambda>fine_renderer_accumulation.
     bind (DepthRenderer_forward (renderer_depth self) fine_weights (ts pdf_ray_samples))
       (\<lambda>fine_renderer_depth.
     Inr (Map.empty(''rgb_coarse'' \<mapsto> coarse_renderer_outputs,
                    ''rgb_fine'' \<mapsto> fine_renderer_outputs,
                    ''accumulation_coarse'' \<mapsto> coarse_renderer_accumulation,
                    ''accumulation_fine'' \<mapsto> fine_renderer_accumulation,
                    ''depth_coarse'' \<mapsto> coarse_renderer_depth,
                    ''depth_fine'' \<mapsto> fine_renderer_depth))))))))))))))))))"

text \<open>
  \<^verbatim>\<open>get_loss_dict\<close>: \<^verbatim>\<open>outputs["rgb_coarse"].device\<close> and \<^verbatim>\<open>batch["pixels"]\<close> are read
  first; moving the pixels to a device leaves their value unchanged.
\<close>

definition get_loss_dict ::
  "collaborators \<Rightarrow> NeRFGraph \<Rightarrow> (string \<rightharpoonup> tensor2) \<Rightarrow> (string \<rightharpoonup> tensor2) \<Rightarrow>
     error + (string \<rightharpoonup> real)" where
  "get_loss_dict env self outputs batch =
     bind (getitem outputs ''rgb_coarse'') (\<lambda>device_of.
     bind (getitem batch ''pixels'') (\<lambda>pixels.
     bind (getitem outputs ''rgb_coarse'') (\<lambda>rgb_coarse.
     bind (MSELoss_forward env (rgb_loss self) pixels rgb_coarse) (\<lambda>rgb_loss_coarse.
     bind (getitem outputs ''rgb_fine'') (\<lambda>rgb_fine.
     bind (MSELoss_forward env (rgb_loss self) pixels rgb_fine) (\<lambda>rgb_loss_fine.
     let loss_dict = Map.empty(''rgb_loss_coarse'' \<mapsto> rgb_loss_coarse,
                               ''rgb_loss_fine'' \<mapsto> rgb_loss_fine) in
     bind (get_aggregated_loss_from_loss_dict env loss_dict) (\<lambda>aggregated_loss.
     Inr (loss_dict(''aggregated_loss'' \<mapsto> aggregated_loss)))))))))"

subsection \<open>The two stages, as a second reading\<close>

text \<open>
  The forward pass of the graph as the state machine of section 4.7 of the spec describes
  it, written stage by stage and compared below with \<open>get_outputs\<close>, which follows the
  source statement by statement.
\<close>

text \<open>
  The weights of a stage and its three renders: the weights from the density entry of the
  field outputs, then the RGB render of the RGB entry, the accumulation render and the depth
  render of the depths of the samples.
\<close>

definition weights_and_renders ::
  "NeRFGraph \<Rightarrow> RaySamples \<Rightarrow> FieldOutputs \<Rightarrow>
     error + (tensor2 \<times> tensor2 \<times> tensor2 \<times> tensor2)" where
  "weights_and_renders self samples field_outputs =
     bind (getitem field_outputs DENSITY) (\<lambda>density.
     bind (get_weights samples density) (\<lambda>weights.
     bind (getitem field_outputs RGB) (\<lambda>rgb.
     bind (RGBRenderer_forward (renderer_rgb self) rgb weights) (\<lambda>rendered_rgb.
     bind (AccumulationRenderer_forward (renderer_accumulation self) weights)
       (\<lambda>rendered_accumulation.
     bind (DepthRenderer_forward (renderer_depth self) weights (ts samples)) (\<lambda>rendered_depth.
     Inr (weights, rendered_rgb, rendered_accumulation, rendered_depth)))))))"

text \<open>
  The coarse stage: uniform sampling of the bundle, then the coarse field on the uniform
  samples, then the coarse weights and renders. It hands on the uniform samples, the coarse
  weights and the three coarse renders.
\<close>

definition coarse_stage ::
  "collaborators \<Rightarrow> NeRFGraph \<Rightarrow> store \<Rightarrow> RayBundle \<Rightarrow>
     error + (RaySamples \<times> tensor2 \<times> tensor2 \<times> tensor2 \<times> tensor2)" where
  "coarse_stage env self st ray_bundle =
     bind (UniformSampler_forward env (sampler_uniform self) ray_bundle) (\<lambda>uniform_samples.
     bind (case field_coarse self of None \<Rightarrow> Inl TypeError
           | Some fld \<Rightarrow> forward env fld st uniform_samples) (\<lambda>field_outputs.
     bind (weights_and_renders self uniform_samples field_outputs) (\<lambda>renders.
     Inr (uniform_samples, renders))))"

text \<open>
  The fine stage: PDF sampling from the uniform samples and the coarse weights, then the
  fine field on the PDF samples, then the fine renders.
\<close>

definition fine_stage ::
  "collaborators \<Rightarrow> NeRFGraph \<Rightarrow> store \<Rightarrow> RaySamples \<Rightarrow> tensor2 \<Rightarrow>
     error + (tensor2 \<times> tensor2 \<times> tensor2)" where
  "fine_stage env self st uniform_samples coarse_weights =
     bind (PDFSampler_forward env (sampler_pdf self) uniform_samples coarse_weights)
       (\<lambda>pdf_samples.
     bind (case field_fine self of None \<Rightarrow> Inl TypeError
           | Some fld \<Rightarrow> forward env fld st pdf_samples) (\<lambda>field_outputs.
     bind (weights_and_renders self pdf_samples field_outputs) (\<lambda>(weights, renders).
     Inr renders)))"

text \<open>
  The two stages in order: the coarse stage, then the fine stage on what the coarse stage
  hands on, then the dictionary of the six renders. An exception of the coarse stage ends
  the computation before the fine stage starts.
\<close>

definition two_stages ::
  "collaborators \<Rightarrow> NeRFGraph \<Rightarrow> store \<Rightarrow> RayBundle \<Rightarrow> error + (string \<rightharpoonup> tensor2)" where
  "two_stages env self st ray_bundle =
     bind (coarse_stage env self st ray_bundle)
       (\<lambda>(uniform_samples, coarse_weights, rgb_coarse, accumulation_coarse, depth_coarse).
     bind (fine_stage env self st uniform_samples coarse_weights)
       (\<lambda>(rgb_fine, accumulation_fine, depth_fine).
     Inr (Map.empty(''rgb_coarse'' \<mapsto> rgb_coarse, ''rgb_fine'' \<mapsto> rgb_fine,
          ''accumulation_coarse'' \<mapsto> accumulation_coarse,
          ''accumulation_fine'' \<mapsto> accumulation_fine,
          ''depth_coarse'' \<mapsto> depth_coarse, ''depth_fine'' \<mapsto> depth_fine))))"

subsection \<open>The forward pass on a heap\<close>

text \<open>
  The calls of one forward pass as actions on a heap. The heap holds the graph object, the
  values of the parameters, and whatever else a collaborator may touch (the state of a
  random number generator, caches). Module objects are values: the configuration and the
  addresses of the parameters.
\<close>

record 'x heap =
  heap_graph :: NeRFGraph
  heap_store :: store
  heap_other :: 'x

type_synonym ('x, 'a) action = "'x heap \<Rightarrow> (error + 'a) \<times> 'x heap"

text \<open>An action runs on the heap the previous one left; an exception ends the sequence.\<close>

definition then_call :: "('x, 'a) action \<Rightarrow> ('a \<Rightarrow> ('x, 'b) action) \<Rightarrow> ('x, 'b) action" where
  "then_call m f h = (case m h of (Inl e, h') \<Rightarrow> (Inl e, h') | (Inr x, h') \<Rightarrow> f x h')"

text \<open>An action that reads the heap and leaves it as it is.\<close>

definition reader :: "('x heap \<Rightarrow> error + 'a) \<Rightarrow> ('x, 'a) action" where
  "reader k h = (k h, h)"

text \<open>\<^verbatim>\<open>self.attr\<close>: the attribute of the graph object, as the heap holds it now.\<close>

definition read_attribute :: "(NeRFGraph \<Rightarrow> 'a) \<Rightarrow> ('x, 'a) action" where
  "read_attribute attr = reader (\<lambda>h. Inr (attr (heap_graph h)))"

text \<open>A computation on local values.\<close>

definition compute :: "error + 'a \<Rightarrow> ('x, 'a) action" where
  "compute r = reader (\<lambda>h. r)"

text \<open>
  The calls of the modules that are not among the sources, as actions: each may read and
  change the heap.
\<close>

record 'x effects =
  NeRFEncoding_call :: "NeRFEncoding \<Rightarrow> tensor3 \<Rightarrow> ('x, tensor3) action"
  MLP_call :: "MLP \<Rightarrow> tensor3 \<Rightarrow> ('x, tensor3) action"
  RGBFieldHead_call :: "RGBFieldHead \<Rightarrow> tensor3 \<Rightarrow> ('x, FieldOutputs) action"
  DensityFieldHead_call :: "DensityFieldHead \<Rightarrow> tensor3 \<Rightarrow> ('x, FieldOutputs) action"
  UniformSampler_call :: "UniformSampler \<Rightarrow> RayBundle \<Rightarrow> ('x, RaySamples) action"
  PDFSampler_call :: "PDFSampler \<Rightarrow> RaySamples \<Rightarrow> tensor2 \<Rightarrow> ('x, RaySamples) action"

text \<open>\<^verbatim>\<open>NeRFField.forward\<close>, call by call.\<close>

definition forward_on_heap :: "'x effects \<Rightarrow> NeRFField \<Rightarrow> RaySamples \<Rightarrow> ('x, FieldOutputs) action" where
  "forward_on_heap eff self ray_samples =
     (let pos = positions ray_samples;
          dir = directions ray_samples in
      then_call (NeRFEncoding_call eff (encoding_xyz self) pos) (\<lambda>encoded_xyz.
      then_call (NeRFEncoding_call eff (encoding_dir self) dir) (\<lambda>encoded_dir.
      then_call (MLP_call eff (mlp_base self) encoded_xyz) (\<lambda>base_mlp_out.
      then_call (compute (torch_cat_last encoded_dir base_mlp_out)) (\<lambda>rgb_mlp_in.
      then_call (MLP_call eff (mlp_rgb self) rgb_mlp_in) (\<lambda>rgb_mlp_out.
      then_call (RGBFieldHead_call eff (field_output_rgb self) rgb_mlp_out) (\<lambda>field_rgb_output.
      then_call (DensityFieldHead_call eff (field_output_density self) base_mlp_out)
        (\<lambda>field_density_out.
      compute (Inr (Map.empty ++ field_rgb_output ++ field_density_out))))))))))"

text \<open>Calling a field attribute.\<close>

definition call_field_on_heap ::
  "'x effects \<Rightarrow> NeRFField option \<Rightarrow> RaySamples \<Rightarrow> ('x, FieldOutputs) action" where
  "call_field_on_heap eff f ray_samples =
     (case f of None \<Rightarrow> compute (Inl TypeError) | Some fld \<Rightarrow> forward_on_heap eff fld ray_samples)"

text \<open>
  \<^verbatim>\<open>NeRFGraph.get_outputs\<close>, statement by statement: every \<^verbatim>\<open>self.attr\<close> is a read of the
  heap, every call of a sampler or of a field is an action. The weights and the renders are
  the computations of section 4.6 of the spec on local values, as in \<open>get_outputs\<close>. The body
  has no assignment to an attribute, so no action of its own writes the heap.
\<close>

definition get_outputs_on_heap ::
  "'x effects \<Rightarrow> RayBundle \<Rightarrow> ('x, string \<rightharpoonup> tensor2) action" where
  "get_outputs_on_heap eff ray_bundle =
     then_call (read_attribute sampler_uniform) (\<lambda>s_uniform.
     then_call (UniformSampler_call eff s_uniform ray_bundle) (\<lambda>uniform_ray_samples.
     then_call (read_attribute field_coarse) (\<lambda>f_coarse.
     then_call (call_field_on_heap eff f_coarse uniform_ray_samples) (\<lambda>coarse_field_outputs.
     then_call (compute (getitem coarse_field_outputs DENSITY)) (\<lambda>coarse_density.
     then_call (compute (get_weights uniform_ray_samples coarse_density)) (\<lambda>coarse_weights.
     then_call (compute (getitem coarse_field_outputs RGB)) (\<lambda>coarse_rgb.
     then_call (read_attribute renderer_rgb) (\<lambda>r_rgb.
     then_call (compute (RGBRenderer_forward r_rgb coarse_rgb coarse_weights))
       (\<lambda>coarse_renderer_outputs.
     then_call (read_attribute renderer_accumulation) (\<lambda>r_acc.
     then_call (compute (AccumulationRenderer_forward r_acc coarse_weights))
       (\<lambda>coarse_renderer_accumulation.
     then_call (read_attribute renderer_depth) (\<lambda>r_depth.
     then_call (compute (DepthRenderer_forward r_depth coarse_weights (ts uniform_ray_samples)))
       (\<lambda>coarse_renderer_depth.
     then_call (read_attribute sampler_pdf) (\<lambda>s_pdf.
     then_call (PDFSampler_call eff s_pdf uniform_ray_samples coarse_weights)
       (\<lambda>pdf_ray_samples.
     then_call (read_attribute field_fine) (\<lambda>f_fine.
     then_call (call_field_on_heap eff f_fine pdf_ray_samples) (\<lambda>fine_field_outputs.
     then_call (compute (getitem fine_field_outputs DENSITY)) (\<lambda>fine_density.
     then_call (compute (get_weights pdf_ray_samples fine_density)) (\<lambda>fine_weights.
     then_call (compute (getitem fine_field_outputs RGB)) (\<lambda>fine_rgb.
     then_call (read_attribute renderer_rgb) (\<lambda>r_rgb2.
     then_call (compute (RGBRenderer_forward r_rgb2 fine_rgb fine_weights))
       (\<lambda>fine_renderer_outputs.
     then_call (read_attribute renderer_accumulation) (\<lambda>r_acc2.
     then_call (compute (AccumulationRenderer_forward r_acc2 fine_weights))
       (\<lambda>fine_renderer_accumulation.
     then_call (read_attribute renderer_depth) (\<lambda>r_depth2.
     then_call (compute (DepthRenderer_forward r_depth2 fine_weights (ts pdf_ray_samples)))
       (\<lambda>fine_renderer_depth.
     compute (Inr (Map.empty(''rgb_coarse'' \<mapsto> coarse_renderer_outputs,
                    ''rgb_fine'' \<mapsto> fine_renderer_outputs,
                    ''accumulation_coarse'' \<mapsto> coarse_renderer_accumulation,
                    ''accumulation_fine'' \<mapsto> fine_renderer_accumulation,
                    ''depth_coarse'' \<mapsto> coarse_renderer_depth,
                    ''depth_fine'' \<mapsto> fine_renderer_depth)))))))))))))))))))))))))))))"

text \<open>An action keeps the graph object and the values of the parameters.\<close>

definition keeps_graph :: "('x, 'a) action \<Rightarrow> bool" where
  "keeps_graph m \<longleftrightarrow>
     (\<forall>h. heap_graph (snd (m h)) = heap_graph h \<and> heap_store (snd (m h)) = heap_store h)"

text \<open>
  Modelled from the spec: section 5, the parameters of the fields are mutated by the
  optimizer only, between forward calls, never during a forward pass. Every call of a
  collaborator keeps the graph object and the values of the parameters.
\<close>

definition read_only :: "'x effects \<Rightarrow> bool" where
  "read_only eff \<longleftrightarrow>
     (\<forall>e x. keeps_graph (NeRFEncoding_call eff e x)) \<and>
     (\<forall>m x. keeps_graph (MLP_call eff m x)) \<and>
     (\<forall>hd x. keeps_graph (RGBFieldHead_call eff hd x)) \<and>
     (\<forall>hd x. keeps_graph (DensityFieldHead_call eff hd x)) \<and>
     (\<forall>s b. keeps_graph (UniformSampler_call eff s b)) \<and>
     (\<forall>s r w. keeps_graph (PDFSampler_call eff s r w))"

text \<open>The collaborators of the functional model, as actions that read the heap.\<close>

definition on_heap :: "collaborators \<Rightarrow> 'x effects" where
  "on_heap env =
     \<lparr>NeRFEncoding_call = (\<lambda>e x. reader (\<lambda>h. NeRFEncoding_forward env e x)),
      MLP_call = (\<lambda>m x. reader (\<lambda>h. MLP_forward env m (heap_store h) x)),
      RGBFieldHead_call = (\<lambda>hd x. reader (\<lambda>h. RGBFieldHead_forward env hd (heap_store h) x)),
      DensityFieldHead_call = (\<lambda>hd x. reader (\<lambda>h. DensityFieldHead_forward env hd (heap_store h) x)),
      UniformSampler_call = (\<lambda>s b. reader (\<lambda>h. UniformSampler_forward env s b)),
      PDFSampler_call = (\<lambda>s r w. reader (\<lambda>h. PDFSampler_forward env s r w))\<rparr>"

subsection \<open>The order of the concatenation, as a second reading\<close>

text \<open>
  \<^verbatim>\<open>NeRFField.forward\<close> with the base feature first in the concatenation and the encoded
  direction second: the reading "concatenate the base feature with encoded direction,
  the base feature coming first". It differs from \<open>forward\<close> in the order of the two
  arguments of \<^verbatim>\<open>torch.cat\<close> only.
\<close>

definition forward_base_first ::
  "collaborators \<Rightarrow> NeRFField \<Rightarrow> store \<Rightarrow> RaySamples \<Rightarrow> error + FieldOutputs" where
  "forward_base_first env self st ray_samples =
     (let pos = positions ray_samples;
          dir = directions ray_samples in
      bind (NeRFEncoding_forward env (encoding_xyz self) pos) (\<lambda>encoded_xyz.
      bind (NeRFEncoding_forward env (encoding_dir self) dir) (\<lambda>encoded_dir.
      bind (MLP_forward env (mlp_base self) st encoded_xyz) (\<lambda>base_mlp_out.
      bind (torch_cat_last base_mlp_out encoded_dir) (\<lambda>rgb_mlp_in.
      bind (MLP_forward env (mlp_rgb self) st rgb_mlp_in) (\<lambda>rgb_mlp_out.
      bind (RGBFieldHead_forward env (field_output_rgb self) st rgb_mlp_out) (\<lambda>field_rgb_output.
      bind (DensityFieldHead_forward env (field_output_density self) st base_mlp_out)
        (\<lambda>field_density_out.
      Inr (Map.empty ++ field_rgb_output ++ field_density_out)))))))))"

subsection \<open>Concrete collaborators and inputs\<close>

text \<open>
  One concrete choice of the collaborators, on which the model is evaluated: the encoders
  and the MLPs pass their input through, the RGB head keeps the first three channels, the
  density head returns zero density, the PDF sampler returns the coarse samples, the loss is
  the mean of the squared differences, the aggregation is the sum of the two terms. The
  uniform sampler divides \<open>[near, far]\<close> into \<open>N\<close> bins and samples the middle of each
  (section 4.5 of the spec, without jitter).
\<close>

definition example_uniform_sampler :: "UniformSampler \<Rightarrow> RayBundle \<Rightarrow> error + RaySamples" where
  "example_uniform_sampler s rb =
     (if length (origins rb) = length (bundle_directions rb) then
        (let n = nat (sampler_num_samples s);
             width = (sampler_far_plane s - sampler_near_plane s) / real n;
             starts = map (\<lambda>i. sampler_near_plane s + width * real i) [0 ..< n];
             ends = map (\<lambda>x. x + width) starts;
             mids = map (\<lambda>x. x + width / 2) starts
         in Inr \<lparr>positions = map2 (\<lambda>orig d. map (\<lambda>t. map2 (\<lambda>oc dc. oc + t * dc) orig d) mids)
                               (origins rb) (bundle_directions rb),
                 directions = map (\<lambda>d. replicate n d) (bundle_directions rb),
                 ts = map (\<lambda>_. mids) (origins rb),
                 bin_starts = map (\<lambda>_. starts) (origins rb),
                 bin_ends = map (\<lambda>_. ends) (origins rb)\<rparr>)
      else Inl ShapeError)"

definition example_collaborators :: collaborators where
  "example_collaborators =
     \<lparr>NeRFEncoding_forward = (\<lambda>e x. Inr x),
      MLP_forward = (\<lambda>m st x. Inr x),
      RGBFieldHead_forward = (\<lambda>h st x. Inr (Map.empty(RGB \<mapsto> map (map (take 3)) x))),
      DensityFieldHead_forward = (\<lambda>h st x. Inr (Map.empty(DENSITY \<mapsto> map (map (\<lambda>v. [0])) x))),
      UniformSampler_forward = example_uniform_sampler,
      PDFSampler_forward = (\<lambda>s samples weights. Inr samples),
      MSELoss_forward = (\<lambda>l a b. Inr (sum_list (map2 (\<lambda>x y. (x - y)\<^sup>2) (concat a) (concat b))
                                      / real (length (concat a)))),
      get_aggregated_loss_from_loss_dict =
        (\<lambda>d. Inr (sum_list (map (\<lambda>k. case d k of None \<Rightarrow> 0 | Some v \<Rightarrow> v)
                               [''rgb_loss_coarse'', ''rgb_loss_fine''])))\<rparr>"

text \<open>The same collaborators with an RGB head that keeps every channel of its input.\<close>

definition passthrough_collaborators :: collaborators where
  "passthrough_collaborators =
     example_collaborators\<lparr>RGBFieldHead_forward := (\<lambda>h st x. Inr (Map.empty(RGB \<mapsto> x)))\<rparr>"

text \<open>
  The example collaborators as actions; each call of a sampler also advances a counter of
  random draws, the rest of the heap.
\<close>

definition example_effects :: "nat effects" where
  "example_effects =
     (on_heap example_collaborators)
       \<lparr>UniformSampler_call :=
          (\<lambda>s b h. (UniformSampler_forward example_collaborators s b,
                     h\<lparr>heap_other := heap_other h + 1\<rparr>)),
        PDFSampler_call :=
          (\<lambda>s r w h. (PDFSampler_forward example_collaborators s r w,
                       h\<lparr>heap_other := heap_other h + 1\<rparr>))\<rparr>"

definition example_store :: store where
  "example_store = (\<lambda>p. [])"

text \<open>The field that \<^verbatim>\<open>NeRFField()\<close> constructs when the next free address is 0.\<close>

definition example_field :: NeRFField where
  "example_field =
     \<lparr>num_layers = 8, layer_width = 256, skip_connections = [4],
      encoding_xyz = \<lparr>enc_in_dim = 3, num_frequencies = 10, min_freq_exp = 0, max_freq_exp = 8,
                      include_input = True\<rparr>,
      encoding_dir = \<lparr>enc_in_dim = 3, num_frequencies = 4, min_freq_exp = 0, max_freq_exp = 4,
                      include_input = True\<rparr>,
      mlp_base = \<lparr>mlp_in_dim = 63, mlp_out_dim = 256, mlp_num_layers = 8, mlp_layer_width = 256,
                  mlp_skip_connections = [4], mlp_parameters = [0 ..< 16]\<rparr>,
      mlp_rgb = \<lparr>mlp_in_dim = 283, mlp_out_dim = 128, mlp_num_layers = 2, mlp_layer_width = 128,
                 mlp_skip_connections = [], mlp_parameters = [16 ..< 20]\<rparr>,
      field_output_rgb = \<lparr>rgb_head_in_dim = 128, rgb_head_parameters = [20, 21]\<rparr>,
      field_output_density = \<lparr>density_head_in_dim = 256, density_head_parameters = [22, 23]\<rparr>\<rparr>"

definition example_bundle :: RayBundle where
  "example_bundle = \<lparr>origins = [[0, 0, 0]], bundle_directions = [[0, 0, 1]]\<rparr>"

definition example_args :: NeRFGraph_args where
  "example_args =
     \<lparr>near_plane = 2, far_plane = 6, num_coarse_samples = 4, num_importance_samples = 8\<rparr>"

text \<open>The four samples of the example ray, between 2 and 6.\<close>

definition example_samples :: RaySamples where
  "example_samples =
     \<lparr>positions = [[[0, 0, 5 / 2], [0, 0, 7 / 2], [0, 0, 9 / 2], [0, 0, 11 / 2]]],
      directions = [[[0, 0, 1], [0, 0, 1], [0, 0, 1], [0, 0, 1]]],
      ts = [[5 / 2, 7 / 2, 9 / 2, 11 / 2]],
      bin_starts = [[2, 3, 4, 5]],
      bin_ends = [[3, 4, 5, 6]]\<rparr>"

text \<open>One sample at the position \<open>(1,2,3)\<close>, seen along \<open>(0,0,1)\<close>.\<close>

definition example_point :: RaySamples where
  "example_point =
     \<lparr>positions = [[[1, 2, 3]]], directions = [[[0, 0, 1]]], ts = [[2]],
      bin_starts = [[1]], bin_ends = [[3]]\<rparr>"


section \<open>Properties\<close>

subsection \<open>Sequencing and lookups\<close>

lemma bind_eq_Inr: "bind m f = Inr y \<longleftrightarrow> (\<exists>x. m = Inr x \<and> f x = Inr y)"
  by (cases m) (simp_all add: bind_def)

lemma bind_Inr: "bind (Inr x) f = f x"
  by (simp add: bind_def)

lemma bind_Inl: "bind (Inl e) f = Inl e"
  by (simp add: bind_def)

lemma bind_assoc: "bind (bind m f) g = bind m (\<lambda>x. bind (f x) g)"
  by (cases m) (simp_all add: bind_def)

lemma getitem_eq_Inr: "getitem d k = Inr v \<longleftrightarrow> d k = Some v"
  by (cases "d k") (simp_all add: getitem_def)

lemma call_field_eq_Inr:
  "call_field env f st rs = Inr out \<longleftrightarrow> (\<exists>fld. f = Some fld \<and> forward env fld st rs = Inr out)"
  by (cases f) (simp_all add: call_field_def)

lemma upt_four: "[m ..< m + 4] = [m, m + 1, m + 2, m + 3]" for m :: nat
  by (simp add: upt_conv_Cons)

lemma upt_eight:
  "[m ..< m + 8] = [m, m + 1, m + 2, m + 3, m + 4, m + 5, m + 6, m + 7]" for m :: nat
  by (simp add: upt_conv_Cons)

lemma upt_0_4: "[0 ..< 4] = [0, 1, 2, 3::nat]"
  by (simp add: upt_conv_Cons)

lemma replicate_4: "replicate 4 x = [x, x, x, x]"
  by (simp add: eval_nat_numeral)

subsection \<open>Weights of a ray\<close>











subsection \<open>Construction of a field\<close>

text \<open>The constructor in closed form: the only failure is the one of the base MLP.\<close>

lemma NeRFField_init_closed:
  "NeRFField_init n_layers width skips nxt =
     (if list_ex (\<lambda>s. s < 0 \<or> n_layers \<le> s) skips then Inl ConfigurationError
      else Inr (\<lparr>num_layers = n_layers, layer_width = width, skip_connections = skips,
            encoding_xyz = fst build_encodings, encoding_dir = snd build_encodings,
            mlp_base = \<lparr>mlp_in_dim = 63, mlp_out_dim = width, mlp_num_layers = n_layers,
                        mlp_layer_width = width, mlp_skip_connections = skips,
                        mlp_parameters = [nxt ..< nxt + 2 * nat n_layers]\<rparr>,
            mlp_rgb = \<lparr>mlp_in_dim = width + 27, mlp_out_dim = width div 2, mlp_num_layers = 2,
                        mlp_layer_width = width div 2, mlp_skip_connections = [],
                        mlp_parameters = [nxt + 2 * nat n_layers ..< nxt + 2 * nat n_layers + 4]\<rparr>,
            field_output_rgb = \<lparr>rgb_head_in_dim = width div 2,
               rgb_head_parameters = [nxt + 2 * nat n_layers + 4, nxt + 2 * nat n_layers + 5]\<rparr>,
            field_output_density = \<lparr>density_head_in_dim = width,
               density_head_parameters = [nxt + 2 * nat n_layers + 6, nxt + 2 * nat n_layers + 7]\<rparr>\<rparr>,
            nxt + 2 * nat n_layers + 8))"
  by (simp add: NeRFField_init_def build_encodings_def build_mlp_base_def build_mlp_rgb_def
      build_heads_def MLP_init_def bind_Inr bind_Inl RGBFieldHead_init_def DensityFieldHead_init_def
      MLP_get_out_dim_def NeRFEncoding_get_out_dim_def Let_def)

text \<open>A constructed field owns exactly the addresses allocated during its construction.\<close>

lemma NeRFField_init_parameters:
  assumes "NeRFField_init n_layers width skips nxt = Inr (fld, nxt')"
  shows "parameters fld = [nxt ..< nxt']"
proof -
  define k where "k = 2 * nat n_layers"
  have split: "[nxt ..< nxt + k + 8] = [nxt ..< nxt + k] @ [nxt + k ..< nxt + k + 8]"
    using upt_add_eq_append[of nxt "nxt + k" 8] by simp
  from assms show ?thesis
    unfolding NeRFField_init_closed
    by (auto simp: parameters_def split upt_eight upt_four k_def[symmetric] split: if_splits)
qed

lemma NeRFField_init_architecture:
  assumes "NeRFField_init n_layers width skips n1 = Inr (f1, n1')"
    and "NeRFField_init n_layers width skips n2 = Inr (f2, n2')"
  shows "architecture f1 = architecture f2"
  using assms unfolding NeRFField_init_closed
  by (auto simp: architecture_def split: if_splits)

lemma NeRFField_init_default: "\<exists>fld. NeRFField_init 8 256 [4] nxt = Inr (fld, nxt + 24)"
  unfolding NeRFField_init_closed by simp

lemma example_field_init: "NeRFField_init 8 256 [4] 0 = Inr (example_field, 24)"
  unfolding NeRFField_init_closed
  by (simp add: example_field_def build_encodings_def)

text \<open>
  Claim C6. The construction of a field raises a configuration error exactly when a skip
  index lies outside \<open>[0, num_layers)\<close>: the error is the result of the constructor, so no
  field exists on which forward could be called. The construction with the defaults
  (8 layers, skip connection 4) succeeds.
\<close>

theorem NeRFField_init_skip_connections:
  "((\<exists>s \<in> set skips. s < 0 \<or> n_layers \<le> s) \<longrightarrow>
      NeRFField_init n_layers width skips nxt = Inl ConfigurationError) \<and>
   (\<not> (\<exists>s \<in> set skips. s < 0 \<or> n_layers \<le> s) \<longrightarrow>
      (\<exists>fld nxt'. NeRFField_init n_layers width skips nxt = Inr (fld, nxt'))) \<and>
   (\<exists>fld nxt'. NeRFField_init 8 256 [4] nxt = Inr (fld, nxt'))"
  unfolding NeRFField_init_closed by (simp add: list_ex_iff)

theorem NeRFField_init_skip_connections_witness:
  "list_ex (\<lambda>s. s < 0 \<or> 8 \<le> s) [10 :: int] \<and>
   NeRFField_init 8 256 [10] 0 = Inl ConfigurationError \<and>
   NeRFField_init 8 256 [4] 0 = Inr (example_field, 24)"
  using NeRFField_init_skip_connections[of "[10]" 8 256 0] example_field_init
  by simp

subsection \<open>Parameter groups\<close>

lemma populate_fields_ok:
  "\<exists>coarse fine n1. NeRFField_init 8 256 [4] nxt = Inr (coarse, n1) \<and>
     NeRFField_init 8 256 [4] n1 = Inr (fine, n1 + 24) \<and> n1 = nxt + 24 \<and>
     populate_fields nxt = Inr ((coarse, fine), nxt + 48)"
proof -
  obtain c where c: "NeRFField_init 8 256 [4] nxt = Inr (c, nxt + 24)"
    using NeRFField_init_default by blast
  obtain f where f: "NeRFField_init 8 256 [4] (nxt + 24) = Inr (f, nxt + 24 + 24)"
    using NeRFField_init_default by blast
  show ?thesis using c f by (simp add: populate_fields_def bind_Inr)
qed

text \<open>What \<open>populate_modules\<close> assigns.\<close>

lemma populate_modules_ok:
  "\<exists>g coarse fine n1.
     populate_modules args nxt = Inr (g, nxt + 48) \<and>
     NeRFField_init 8 256 [4] nxt = Inr (coarse, n1) \<and>
     NeRFField_init 8 256 [4] n1 = Inr (fine, nxt + 48) \<and>
     field_coarse g = Some coarse \<and> field_fine g = Some fine \<and>
     sampler_uniform g = \<lparr>sampler_near_plane = near_plane args, sampler_far_plane = far_plane args,
                           sampler_num_samples = num_coarse_samples args\<rparr> \<and>
     sampler_pdf g = \<lparr>pdf_num_samples = num_importance_samples args\<rparr> \<and>
     renderer_rgb g = \<lparr>background_color = Some WHITE\<rparr> \<and>
     rgb_loss g = MSELoss"
proof -
  obtain coarse fine n1 where
    c: "NeRFField_init 8 256 [4] nxt = Inr (coarse, n1)" and
    f: "NeRFField_init 8 256 [4] n1 = Inr (fine, n1 + 24)" and
    n1: "n1 = nxt + 24" and
    pf: "populate_fields nxt = Inr ((coarse, fine), nxt + 48)"
    using populate_fields_ok by blast
  from f n1 have f': "NeRFField_init 8 256 [4] n1 = Inr (fine, nxt + 48)" by simp
  show ?thesis
    using c f' by (simp add: populate_modules_def pf bind_Inr Let_def)
qed

lemma get_param_groups_Some:
  "field_coarse g = Some coarse \<Longrightarrow> field_fine g = Some fine \<Longrightarrow>
   get_param_groups g = Inr (Map.empty(''fields'' \<mapsto> parameters coarse @ parameters fine))"
  by (simp add: get_param_groups_def field_parameters_def bind_Inr)

text \<open>
  Claim C8. On a graph whose two fields are set, \<open>get_param_groups\<close> returns the one group
  "fields": the parameters of the coarse field followed by those of the fine field. After
  \<open>populate_modules\<close> the two fields are the results of two constructions with the default
  arguments: they have the same architecture, and no parameter of one is a parameter of the
  other.
\<close>

theorem get_param_groups_fields:
  "(field_coarse g = Some c \<and> field_fine g = Some f \<longrightarrow>
      get_param_groups g = Inr (Map.empty(''fields'' \<mapsto> parameters c @ parameters f))) \<and>
   (\<exists>graph nxt' n1 coarse fine.
      populate_modules args nxt = Inr (graph, nxt') \<and>
      NeRFField_init 8 256 [4] nxt = Inr (coarse, n1) \<and>
      NeRFField_init 8 256 [4] n1 = Inr (fine, nxt') \<and>
      field_coarse graph = Some coarse \<and> field_fine graph = Some fine \<and>
      get_param_groups graph =
        Inr (Map.empty(''fields'' \<mapsto> parameters coarse @ parameters fine)) \<and>
      architecture coarse = architecture fine \<and>
      set (parameters coarse) \<inter> set (parameters fine) = {} \<and>
      distinct (parameters coarse @ parameters fine))"
proof
  show "field_coarse g = Some c \<and> field_fine g = Some f \<longrightarrow>
      get_param_groups g = Inr (Map.empty(''fields'' \<mapsto> parameters c @ parameters f))"
    by (simp add: get_param_groups_Some)
next
  obtain graph coarse fine n1 where
    pm: "populate_modules args nxt = Inr (graph, nxt + 48)" and
    c: "NeRFField_init 8 256 [4] nxt = Inr (coarse, n1)" and
    f: "NeRFField_init 8 256 [4] n1 = Inr (fine, nxt + 48)" and
    fc: "field_coarse graph = Some coarse" and ff: "field_fine graph = Some fine"
    using populate_modules_ok[of args nxt] by blast
  have pc: "parameters coarse = [nxt ..< n1]" using NeRFField_init_parameters[OF c] .
  have pfine: "parameters fine = [n1 ..< nxt + 48]" using NeRFField_init_parameters[OF f] .
  have disj: "set (parameters coarse) \<inter> set (parameters fine) = {}"
    unfolding pc pfine by auto
  have dist: "distinct (parameters coarse @ parameters fine)"
    unfolding pc pfine by auto
  show "\<exists>graph nxt' n1 coarse fine.
      populate_modules args nxt = Inr (graph, nxt') \<and>
      NeRFField_init 8 256 [4] nxt = Inr (coarse, n1) \<and>
      NeRFField_init 8 256 [4] n1 = Inr (fine, nxt') \<and>
      field_coarse graph = Some coarse \<and> field_fine graph = Some fine \<and>
      get_param_groups graph =
        Inr (Map.empty(''fields'' \<mapsto> parameters coarse @ parameters fine)) \<and>
      architecture coarse = architecture fine \<and>
      set (parameters coarse) \<inter> set (parameters fine) = {} \<and>
      distinct (parameters coarse @ parameters fine)"
    using pm c f fc ff get_param_groups_Some[OF fc ff] NeRFField_init_architecture[OF c f]
      disj dist
    by blast
qed

theorem get_param_groups_fields_witness:
  "\<exists>graph nxt' fine.
     populate_modules example_args 0 = Inr (graph, nxt') \<and>
     field_coarse graph = Some example_field \<and> field_fine graph = Some fine \<and>
     get_param_groups graph =
       Inr (Map.empty(''fields'' \<mapsto> parameters example_field @ parameters fine)) \<and>
     parameters example_field = [0 ..< 24] \<and>
     set (parameters example_field) \<inter> set (parameters fine) = {}"
proof -
  from get_param_groups_fields[of _ _ _ example_args 0]
  obtain graph nxt' n1 coarse fine where
    pm: "populate_modules example_args 0 = Inr (graph, nxt')" and
    c: "NeRFField_init 8 256 [4] 0 = Inr (coarse, n1)" and
    fc: "field_coarse graph = Some coarse" and ff: "field_fine graph = Some fine" and
    gp: "get_param_groups graph =
        Inr (Map.empty(''fields'' \<mapsto> parameters coarse @ parameters fine))" and
    disj: "set (parameters coarse) \<inter> set (parameters fine) = {}"
    by blast
  from c example_field_init have eq: "coarse = example_field" and n1: "n1 = 24" by simp_all
  from NeRFField_init_parameters[OF example_field_init]
  have "parameters example_field = [0 ..< 24]" .
  with pm fc ff gp disj show ?thesis unfolding eq by blast
qed

subsection \<open>The forward pass of a field\<close>

lemma torch_cat_last_eq_Inr:
  "torch_cat_last a b = Inr x \<longleftrightarrow>
     length a = length b \<and> list_all2 (\<lambda>r s. length r = length s) a b \<and>
     x = map2 (map2 (@)) a b"
  by (auto simp: torch_cat_last_def)

text \<open>The forward pass returns exactly when each of its seven calls returns.\<close>

lemma forward_eq_Inr:
  "forward env self st rs = Inr out \<longleftrightarrow>
     (\<exists>encoded_xyz encoded_dir base_mlp_out rgb_mlp_in rgb_mlp_out field_rgb_output
        field_density_out.
        NeRFEncoding_forward env (encoding_xyz self) (positions rs) = Inr encoded_xyz \<and>
        NeRFEncoding_forward env (encoding_dir self) (directions rs) = Inr encoded_dir \<and>
        MLP_forward env (mlp_base self) st encoded_xyz = Inr base_mlp_out \<and>
        torch_cat_last encoded_dir base_mlp_out = Inr rgb_mlp_in \<and>
        MLP_forward env (mlp_rgb self) st rgb_mlp_in = Inr rgb_mlp_out \<and>
        RGBFieldHead_forward env (field_output_rgb self) st rgb_mlp_out = Inr field_rgb_output \<and>
        DensityFieldHead_forward env (field_output_density self) st base_mlp_out =
          Inr field_density_out \<and>
        out = field_rgb_output ++ field_density_out)"
  by (simp add: forward_def bind_eq_Inr Let_def) blast

lemma example_tagged: "heads_tagged example_collaborators"
  by (simp add: heads_tagged_def example_collaborators_def)

lemma example_forward_point:
  "forward example_collaborators fld example_store (example_point\<lparr>directions := [[d]]\<rparr>) =
     Inr (Map.empty(RGB \<mapsto> [[take 3 (d @ [1, 2, 3])]], DENSITY \<mapsto> [[[0]]]))"
  by (simp add: forward_def bind_Inr example_collaborators_def torch_cat_last_def
      example_point_def)

lemma example_forward_samples:
  "forward example_collaborators fld example_store example_samples =
     Inr (Map.empty(RGB \<mapsto> [[[0, 0, 1], [0, 0, 1], [0, 0, 1], [0, 0, 1]]],
                    DENSITY \<mapsto> [[[0], [0], [0], [0]]]))"
  by (simp add: forward_def bind_Inr example_collaborators_def torch_cat_last_def
      example_samples_def)

lemma passthrough_forward_point:
  "forward passthrough_collaborators fld example_store example_point =
     Inr (Map.empty(RGB \<mapsto> [[[0, 0, 1, 1, 2, 3]]], DENSITY \<mapsto> [[[0]]]))"
  by (simp add: forward_def bind_Inr passthrough_collaborators_def example_collaborators_def
      torch_cat_last_def example_point_def)

lemma passthrough_forward_base_first_point:
  "forward_base_first passthrough_collaborators fld example_store example_point =
     Inr (Map.empty(RGB \<mapsto> [[[1, 2, 3, 0, 0, 1]]], DENSITY \<mapsto> [[[0]]]))"
  by (simp add: forward_base_first_def bind_Inr passthrough_collaborators_def
      example_collaborators_def torch_cat_last_def example_point_def)

text \<open>
  Claim C10. When the two heads return their single tagged entry, the outputs of a forward
  pass that returns have exactly the keys \<open>RGB\<close> and \<open>DENSITY\<close>, so the two lookups of
  \<open>get_outputs\<close> succeed.
\<close>

theorem forward_field_outputs_keys:
  assumes tagged: "heads_tagged env" and fwd: "forward env self st ray_samples = Inr field_outputs"
  shows "dom field_outputs = {RGB, DENSITY} \<and>
         (\<exists>rgb. getitem field_outputs RGB = Inr rgb) \<and>
         (\<exists>density. getitem field_outputs DENSITY = Inr density)"
proof -
  from fwd obtain x y r d where
    r: "RGBFieldHead_forward env (field_output_rgb self) st x = Inr r" and
    d: "DensityFieldHead_forward env (field_output_density self) st y = Inr d" and
    out: "field_outputs = r ++ d"
    unfolding forward_eq_Inr by blast
  from tagged r have "dom r = {RGB}" unfolding heads_tagged_def by blast
  moreover from tagged d have "dom d = {DENSITY}" unfolding heads_tagged_def by blast
  ultimately have keys: "dom field_outputs = {RGB, DENSITY}" unfolding out by auto
  then have "RGB \<in> dom field_outputs" "DENSITY \<in> dom field_outputs" by simp_all
  then show ?thesis using keys by (auto simp: getitem_eq_Inr)
qed

theorem forward_field_outputs_keys_witness:
  "heads_tagged example_collaborators \<and>
   (\<exists>field_outputs.
      forward example_collaborators example_field example_store example_samples =
        Inr field_outputs \<and>
      dom field_outputs = {RGB, DENSITY} \<and>
      getitem field_outputs DENSITY = Inr [[[0], [0], [0], [0]]])"
  using forward_field_outputs_keys[OF example_tagged
      example_forward_samples[of example_field]]
  by (simp add: example_tagged example_forward_samples getitem_def)

text \<open>
  Claim C2. For fixed collaborators, field and parameter store, two forward passes on samples
  with the same positions return the same density entry, whatever the directions are. The
  RGB entry may depend on the directions: with the example collaborators it differs between
  two samples that differ in their direction only.
\<close>

theorem forward_density_noninterference:
  assumes tagged: "heads_tagged env"
    and f1: "forward env self st rs1 = Inr out1"
    and f2: "forward env self st rs2 = Inr out2"
    and pos: "positions rs1 = positions rs2"
  shows "out1 DENSITY = out2 DENSITY \<and>
         (\<exists>env' self' st' a b out_a out_b.
            heads_tagged env' \<and> positions a = positions b \<and>
            forward env' self' st' a = Inr out_a \<and> forward env' self' st' b = Inr out_b \<and>
            out_a RGB \<noteq> out_b RGB)"
proof
  from f1 obtain e1 b1 r1 d1 where
    e1: "NeRFEncoding_forward env (encoding_xyz self) (positions rs1) = Inr e1" and
    b1: "MLP_forward env (mlp_base self) st e1 = Inr b1" and
    d1: "DensityFieldHead_forward env (field_output_density self) st b1 = Inr d1" and
    o1: "out1 = r1 ++ d1"
    unfolding forward_eq_Inr by blast
  from f2 obtain e2 b2 r2 d2 where
    e2: "NeRFEncoding_forward env (encoding_xyz self) (positions rs2) = Inr e2" and
    b2: "MLP_forward env (mlp_base self) st e2 = Inr b2" and
    d2: "DensityFieldHead_forward env (field_output_density self) st b2 = Inr d2" and
    o2: "out2 = r2 ++ d2"
    unfolding forward_eq_Inr by blast
  from e1 e2 pos have "e1 = e2" by simp
  with b1 b2 have "b1 = b2" by simp
  with d1 d2 have dd: "d1 = d2" by simp
  from tagged d1 have "dom d1 = {DENSITY}" unfolding heads_tagged_def by blast
  then obtain v where "d1 DENSITY = Some v" by blast
  with dd show "out1 DENSITY = out2 DENSITY" unfolding o1 o2 by (simp add: map_add_Some_iff)
next
  let ?a = "example_point\<lparr>directions := [[[0, 0, 1]]]\<rparr>"
  let ?b = "example_point\<lparr>directions := [[[1, 0, 0]]]\<rparr>"
  let ?oa = "Map.empty(RGB \<mapsto> [[take 3 ([0, 0, 1] @ [1, 2, 3])]], DENSITY \<mapsto> [[[0::real]]])"
  let ?ob = "Map.empty(RGB \<mapsto> [[take 3 ([1, 0, 0] @ [1, 2, 3])]], DENSITY \<mapsto> [[[0::real]]])"
  have "positions ?a = positions ?b" by simp
  moreover have "forward example_collaborators example_field example_store ?a = Inr ?oa"
    by (rule example_forward_point)
  moreover have "forward example_collaborators example_field example_store ?b = Inr ?ob"
    by (rule example_forward_point)
  moreover have "?oa RGB \<noteq> ?ob RGB" by simp
  ultimately show "\<exists>env' self' st' a b out_a out_b.
            heads_tagged env' \<and> positions a = positions b \<and>
            forward env' self' st' a = Inr out_a \<and> forward env' self' st' b = Inr out_b \<and>
            out_a RGB \<noteq> out_b RGB"
    using example_tagged by blast
qed

theorem forward_density_noninterference_witness:
  "heads_tagged example_collaborators \<and>
   (\<exists>out1 out2.
      forward example_collaborators example_field example_store
        (example_point\<lparr>directions := [[[0, 0, 1]]]\<rparr>) = Inr out1 \<and>
      forward example_collaborators example_field example_store
        (example_point\<lparr>directions := [[[1, 0, 0]]]\<rparr>) = Inr out2 \<and>
      positions (example_point\<lparr>directions := [[[0, 0, 1]]]\<rparr>) =
        positions (example_point\<lparr>directions := [[[1, 0, 0]]]\<rparr>) \<and>
      directions (example_point\<lparr>directions := [[[0, 0, 1]]]\<rparr>) \<noteq>
        directions (example_point\<lparr>directions := [[[1, 0, 0]]]\<rparr>) \<and>
      out1 DENSITY = out2 DENSITY \<and> out1 RGB \<noteq> out2 RGB)"
proof -
  let ?a = "example_point\<lparr>directions := [[[0, 0, 1]]]\<rparr>"
  let ?b = "example_point\<lparr>directions := [[[1, 0, 0]]]\<rparr>"
  have fa: "forward example_collaborators example_field example_store ?a =
      Inr (Map.empty(RGB \<mapsto> [[take 3 ([0, 0, 1] @ [1, 2, 3])]], DENSITY \<mapsto> [[[0]]]))"
    by (rule example_forward_point)
  have fb: "forward example_collaborators example_field example_store ?b =
      Inr (Map.empty(RGB \<mapsto> [[take 3 ([1, 0, 0] @ [1, 2, 3])]], DENSITY \<mapsto> [[[0]]]))"
    by (rule example_forward_point)
  have pos: "positions ?a = positions ?b" by simp
  from forward_density_noninterference[OF example_tagged fa fb pos]
  show ?thesis using example_tagged fa fb by simp
qed

text \<open>
  Claim C3, amended. The input of the second MLP is the concatenation of the encoded
  direction and the base feature, the encoded direction first; the RGB head is applied to
  the output of that MLP, the density head to the base feature.
\<close>

theorem forward_rgb_mlp_input:
  "forward env self st rs = Inr out \<longleftrightarrow>
     (\<exists>encoded_xyz encoded_dir base_mlp_out rgb_mlp_out field_rgb_output field_density_out.
        NeRFEncoding_forward env (encoding_xyz self) (positions rs) = Inr encoded_xyz \<and>
        NeRFEncoding_forward env (encoding_dir self) (directions rs) = Inr encoded_dir \<and>
        MLP_forward env (mlp_base self) st encoded_xyz = Inr base_mlp_out \<and>
        length encoded_dir = length base_mlp_out \<and>
        list_all2 (\<lambda>r s. length r = length s) encoded_dir base_mlp_out \<and>
        MLP_forward env (mlp_rgb self) st (map2 (map2 (@)) encoded_dir base_mlp_out) =
          Inr rgb_mlp_out \<and>
        RGBFieldHead_forward env (field_output_rgb self) st rgb_mlp_out = Inr field_rgb_output \<and>
        DensityFieldHead_forward env (field_output_density self) st base_mlp_out =
          Inr field_density_out \<and>
        out = field_rgb_output ++ field_density_out)"
  unfolding forward_eq_Inr torch_cat_last_eq_Inr by blast

theorem forward_rgb_mlp_input_witness:
  "forward passthrough_collaborators example_field example_store example_point =
     Inr (Map.empty(RGB \<mapsto> [[[0, 0, 1, 1, 2, 3]]], DENSITY \<mapsto> [[[0]]]))"
  using forward_rgb_mlp_input[of passthrough_collaborators example_field example_store
      example_point "Map.empty(RGB \<mapsto> [[[0, 0, 1, 1, 2, 3]]], DENSITY \<mapsto> [[[0]]])"]
  by (simp add: passthrough_collaborators_def example_collaborators_def example_point_def)

text \<open>
  Claim C3 as stated fails: on one sample at \<open>(1,2,3)\<close> seen along \<open>(0,0,1)\<close>, with
  collaborators that pass their input through, the RGB entry shows the input of the second
  MLP. The code gives the direction first; the reading with the base feature first gives
  another tensor.
\<close>

theorem forward_base_first_counterexample:
  "forward passthrough_collaborators example_field example_store example_point =
     Inr (Map.empty(RGB \<mapsto> [[[0, 0, 1, 1, 2, 3]]], DENSITY \<mapsto> [[[0]]])) \<and>
   forward_base_first passthrough_collaborators example_field example_store example_point =
     Inr (Map.empty(RGB \<mapsto> [[[1, 2, 3, 0, 0, 1]]], DENSITY \<mapsto> [[[0]]])) \<and>
   forward passthrough_collaborators example_field example_store example_point \<noteq>
     forward_base_first passthrough_collaborators example_field example_store example_point"
proof -
  have "(Map.empty(RGB \<mapsto> [[[0, 0, 1, 1, 2, 3::real]]], DENSITY \<mapsto> [[[0]]])) RGB \<noteq>
        (Map.empty(RGB \<mapsto> [[[1, 2, 3, 0, 0, 1::real]]], DENSITY \<mapsto> [[[0]]])) RGB"
    by simp
  then have "Map.empty(RGB \<mapsto> [[[0, 0, 1, 1, 2, 3::real]]], DENSITY \<mapsto> [[[0]]]) \<noteq>
        Map.empty(RGB \<mapsto> [[[1, 2, 3, 0, 0, 1::real]]], DENSITY \<mapsto> [[[0]]])"
    by metis
  then show ?thesis
    unfolding passthrough_forward_point passthrough_forward_base_first_point by simp
qed

subsection \<open>The two stages of the graph\<close>

text \<open>\<open>get_outputs\<close> returns exactly when each call of its two stages returns.\<close>

lemma get_outputs_eq_Inr:
  "get_outputs env self st ray_bundle = Inr outputs \<longleftrightarrow>
     (\<exists>uniform_ray_samples coarse_field_outputs coarse_density coarse_weights coarse_rgb
        rgb_coarse accumulation_coarse depth_coarse
        pdf_ray_samples fine_field_outputs fine_density fine_weights fine_rgb
        rgb_fine accumulation_fine depth_fine.
        UniformSampler_forward env (sampler_uniform self) ray_bundle = Inr uniform_ray_samples \<and>
        call_field env (field_coarse self) st uniform_ray_samples = Inr coarse_field_outputs \<and>
        coarse_field_outputs DENSITY = Some coarse_density \<and>
        get_weights uniform_ray_samples coarse_density = Inr coarse_weights \<and>
        coarse_field_outputs RGB = Some coarse_rgb \<and>
        RGBRenderer_forward (renderer_rgb self) coarse_rgb coarse_weights = Inr rgb_coarse \<and>
        AccumulationRenderer_forward (renderer_accumulation self) coarse_weights =
          Inr accumulation_coarse \<and>
        DepthRenderer_forward (renderer_depth self) coarse_weights (ts uniform_ray_samples) =
          Inr depth_coarse \<and>
        PDFSampler_forward env (sampler_pdf self) uniform_ray_samples coarse_weights =
          Inr pdf_ray_samples \<and>
        call_field env (field_fine self) st pdf_ray_samples = Inr fine_field_outputs \<and>
        fine_field_outputs DENSITY = Some fine_density \<and>
        get_weights pdf_ray_samples fine_density = Inr fine_weights \<and>
        fine_field_outputs RGB = Some fine_rgb \<and>
        RGBRenderer_forward (renderer_rgb self) fine_rgb fine_weights = Inr rgb_fine \<and>
        AccumulationRenderer_forward (renderer_accumulation self) fine_weights =
          Inr accumulation_fine \<and>
        DepthRenderer_forward (renderer_depth self) fine_weights (ts pdf_ray_samples) =
          Inr depth_fine \<and>
        outputs = Map.empty(''rgb_coarse'' \<mapsto> rgb_coarse, ''rgb_fine'' \<mapsto> rgb_fine,
          ''accumulation_coarse'' \<mapsto> accumulation_coarse,
          ''accumulation_fine'' \<mapsto> accumulation_fine,
          ''depth_coarse'' \<mapsto> depth_coarse, ''depth_fine'' \<mapsto> depth_fine))"
  unfolding get_outputs_def bind_eq_Inr getitem_eq_Inr
  by (simp only: sum.inject ex_simps) blast

lemma example_sampler:
  "example_uniform_sampler
     \<lparr>sampler_near_plane = 2, sampler_far_plane = 6, sampler_num_samples = 4\<rparr> example_bundle =
   Inr example_samples"
  by (simp add: example_uniform_sampler_def example_bundle_def example_samples_def Let_def
      upt_0_4 replicate_4)

lemma example_weights:
  "get_weights example_samples [[[0], [0], [0], [0]]] = Inr [[0, 0, 0, 0]]"
  by (simp add: get_weights_def example_samples_def ray_weights_def alpha_def)

text \<open>The example graph on the example ray: every stage evaluated.\<close>

lemma example_get_outputs:
  assumes "sampler_uniform g =
      \<lparr>sampler_near_plane = 2, sampler_far_plane = 6, sampler_num_samples = 4\<rparr>"
    "field_coarse g = Some c" "field_fine g = Some f"
    "renderer_rgb g = \<lparr>background_color = Some WHITE\<rparr>"
  shows "get_outputs example_collaborators g example_store example_bundle =
     Inr (Map.empty(''rgb_coarse'' \<mapsto> [[1, 1, 1]], ''rgb_fine'' \<mapsto> [[1, 1, 1]],
          ''accumulation_coarse'' \<mapsto> [[0]], ''accumulation_fine'' \<mapsto> [[0]],
          ''depth_coarse'' \<mapsto> [[0]], ''depth_fine'' \<mapsto> [[0]]))"
proof -
  have us: "UniformSampler_forward example_collaborators
      \<lparr>sampler_near_plane = 2, sampler_far_plane = 6, sampler_num_samples = 4\<rparr> example_bundle =
      Inr example_samples"
    using example_sampler by (simp add: example_collaborators_def)
  have pdf: "PDFSampler_forward example_collaborators s example_samples w = Inr example_samples"
    for s w
    by (simp add: example_collaborators_def)
  have r: "RGBRenderer_forward \<lparr>background_color = Some WHITE\<rparr>
      [[[0, 0, 1], [0, 0, 1], [0, 0, 1], [0, 0, 1]]] [[0, 0, 0, 0]] = Inr [[1, 1, 1]]"
    by (simp add: RGBRenderer_forward_def render_ray_rgb_def weighted_sum_def WHITE_def
        upt_conv_Cons)
  have a: "AccumulationRenderer_forward x [[0, 0, 0, 0]] = Inr [[0]]" for x
    by (simp add: AccumulationRenderer_forward_def)
  have d: "DepthRenderer_forward x [[0, 0, 0, 0]] (ts example_samples) = Inr [[0]]" for x
    by (simp add: DepthRenderer_forward_def weighted_sum_def example_samples_def)
  show ?thesis
    unfolding get_outputs_def
    by (simp add: us bind_Inr call_field_def assms example_forward_samples getitem_def
        example_weights r a d pdf)
qed

lemma example_graph:
  "\<exists>g nxt' c f.
     populate_modules example_args 0 = Inr (g, nxt') \<and>
     sampler_uniform g =
       \<lparr>sampler_near_plane = 2, sampler_far_plane = 6, sampler_num_samples = 4\<rparr> \<and>
     field_coarse g = Some c \<and> field_fine g = Some f \<and>
     renderer_rgb g = \<lparr>background_color = Some WHITE\<rparr> \<and> rgb_loss g = MSELoss"
  using populate_modules_ok[of example_args 0] by (auto simp: example_args_def)

text \<open>\<open>get_outputs\<close> and the two stages agree on every input, whether they return or raise.\<close>

lemma get_outputs_is_two_stages:
  "get_outputs env self st ray_bundle = two_stages env self st ray_bundle"
  unfolding get_outputs_def two_stages_def coarse_stage_def fine_stage_def
    weights_and_renders_def call_field_def
  by (simp add: bind_assoc bind_Inr)

text \<open>The calls of a run of \<open>get_outputs\<close> that returns, the fields evaluated by \<open>forward\<close>.\<close>

lemma get_outputs_forward_eq_Inr:
  "get_outputs env self st ray_bundle = Inr outputs \<longleftrightarrow>
     (\<exists>uniform_ray_samples coarse_field coarse_field_outputs coarse_density coarse_weights
        coarse_rgb rgb_coarse accumulation_coarse depth_coarse
        pdf_ray_samples fine_field fine_field_outputs fine_density fine_weights fine_rgb
        rgb_fine accumulation_fine depth_fine.
        UniformSampler_forward env (sampler_uniform self) ray_bundle = Inr uniform_ray_samples \<and>
        field_coarse self = Some coarse_field \<and>
        forward env coarse_field st uniform_ray_samples = Inr coarse_field_outputs \<and>
        coarse_field_outputs DENSITY = Some coarse_density \<and>
        get_weights uniform_ray_samples coarse_density = Inr coarse_weights \<and>
        coarse_field_outputs RGB = Some coarse_rgb \<and>
        RGBRenderer_forward (renderer_rgb self) coarse_rgb coarse_weights = Inr rgb_coarse \<and>
        AccumulationRenderer_forward (renderer_accumulation self) coarse_weights =
          Inr accumulation_coarse \<and>
        DepthRenderer_forward (renderer_depth self) coarse_weights (ts uniform_ray_samples) =
          Inr depth_coarse \<and>
        PDFSampler_forward env (sampler_pdf self) uniform_ray_samples coarse_weights =
          Inr pdf_ray_samples \<and>
        field_fine self = Some fine_field \<and>
        forward env fine_field st pdf_ray_samples = Inr fine_field_outputs \<and>
        fine_field_outputs DENSITY = Some fine_density \<and>
        get_weights pdf_ray_samples fine_density = Inr fine_weights \<and>
        fine_field_outputs RGB = Some fine_rgb \<and>
        RGBRenderer_forward (renderer_rgb self) fine_rgb fine_weights = Inr rgb_fine \<and>
        AccumulationRenderer_forward (renderer_accumulation self) fine_weights =
          Inr accumulation_fine \<and>
        DepthRenderer_forward (renderer_depth self) fine_weights (ts pdf_ray_samples) =
          Inr depth_fine \<and>
        outputs = Map.empty(''rgb_coarse'' \<mapsto> rgb_coarse, ''rgb_fine'' \<mapsto> rgb_fine,
          ''accumulation_coarse'' \<mapsto> accumulation_coarse,
          ''accumulation_fine'' \<mapsto> accumulation_fine,
          ''depth_coarse'' \<mapsto> depth_coarse, ''depth_fine'' \<mapsto> depth_fine))"
  unfolding get_outputs_def bind_eq_Inr getitem_eq_Inr call_field_eq_Inr
  by (simp only: sum.inject ex_simps) blast

text \<open>
  Claim C1. \<open>get_outputs\<close> is the coarse stage followed by the fine stage, on every input:
  it returns what the two stages in order return, and raises what they raise, so an
  exception of the coarse stage comes before any call of the fine stage. It returns exactly
  when every call returns: the uniform samples, the coarse field's forward pass on them, the
  coarse weights from its density, the three coarse renders; then the PDF samples drawn from
  the uniform samples and the coarse weights, the fine field's forward pass on them, the fine
  weights, the three fine renders. What it returns has exactly the six keys, each bound to
  the render of its stage.
\<close>

theorem get_outputs_two_stages:
  "get_outputs env self st ray_bundle = two_stages env self st ray_bundle \<and>
   (get_outputs env self st ray_bundle = Inr outputs \<longleftrightarrow>
     (\<exists>uniform_ray_samples coarse_field coarse_field_outputs coarse_density coarse_weights
        coarse_rgb rgb_coarse accumulation_coarse depth_coarse
        pdf_ray_samples fine_field fine_field_outputs fine_density fine_weights fine_rgb
        rgb_fine accumulation_fine depth_fine.
        UniformSampler_forward env (sampler_uniform self) ray_bundle = Inr uniform_ray_samples \<and>
        field_coarse self = Some coarse_field \<and>
        forward env coarse_field st uniform_ray_samples = Inr coarse_field_outputs \<and>
        coarse_field_outputs DENSITY = Some coarse_density \<and>
        get_weights uniform_ray_samples coarse_density = Inr coarse_weights \<and>
        coarse_field_outputs RGB = Some coarse_rgb \<and>
        RGBRenderer_forward (renderer_rgb self) coarse_rgb coarse_weights = Inr rgb_coarse \<and>
        AccumulationRenderer_forward (renderer_accumulation self) coarse_weights =
          Inr accumulation_coarse \<and>
        DepthRenderer_forward (renderer_depth self) coarse_weights (ts uniform_ray_samples) =
          Inr depth_coarse \<and>
        PDFSampler_forward env (sampler_pdf self) uniform_ray_samples coarse_weights =
          Inr pdf_ray_samples \<and>
        field_fine self = Some fine_field \<and>
        forward env fine_field st pdf_ray_samples = Inr fine_field_outputs \<and>
        fine_field_outputs DENSITY = Some fine_density \<and>
        get_weights pdf_ray_samples fine_density = Inr fine_weights \<and>
        fine_field_outputs RGB = Some fine_rgb \<and>
        RGBRenderer_forward (renderer_rgb self) fine_rgb fine_weights = Inr rgb_fine \<and>
        AccumulationRenderer_forward (renderer_accumulation self) fine_weights =
          Inr accumulation_fine \<and>
        DepthRenderer_forward (renderer_depth self) fine_weights (ts pdf_ray_samples) =
          Inr depth_fine \<and>
        outputs = Map.empty(''rgb_coarse'' \<mapsto> rgb_coarse, ''rgb_fine'' \<mapsto> rgb_fine,
          ''accumulation_coarse'' \<mapsto> accumulation_coarse,
          ''accumulation_fine'' \<mapsto> accumulation_fine,
          ''depth_coarse'' \<mapsto> depth_coarse, ''depth_fine'' \<mapsto> depth_fine))) \<and>
   (get_outputs env self st ray_bundle = Inr outputs \<longrightarrow>
      dom outputs = {''rgb_coarse'', ''rgb_fine'', ''accumulation_coarse'',
        ''accumulation_fine'', ''depth_coarse'', ''depth_fine''})"
proof (intro conjI)
  show "get_outputs env self st ray_bundle = two_stages env self st ray_bundle"
    by (rule get_outputs_is_two_stages)
next
  show "get_outputs env self st ray_bundle = Inr outputs \<longrightarrow>
      dom outputs = {''rgb_coarse'', ''rgb_fine'', ''accumulation_coarse'',
        ''accumulation_fine'', ''depth_coarse'', ''depth_fine''}"
  proof
    assume "get_outputs env self st ray_bundle = Inr outputs"
    then obtain a b c d e f :: tensor2 where
      "outputs = Map.empty(''rgb_coarse'' \<mapsto> a, ''rgb_fine'' \<mapsto> b,
          ''accumulation_coarse'' \<mapsto> c, ''accumulation_fine'' \<mapsto> d,
          ''depth_coarse'' \<mapsto> e, ''depth_fine'' \<mapsto> f)"
      unfolding get_outputs_eq_Inr by blast
    then show "dom outputs = {''rgb_coarse'', ''rgb_fine'', ''accumulation_coarse'',
        ''accumulation_fine'', ''depth_coarse'', ''depth_fine''}"
      by auto
  qed
qed (rule get_outputs_forward_eq_Inr)

theorem get_outputs_two_stages_witness:
  "\<exists>g nxt' outputs.
     populate_modules example_args 0 = Inr (g, nxt') \<and>
     get_outputs example_collaborators g example_store example_bundle = Inr outputs \<and>
     two_stages example_collaborators g example_store example_bundle = Inr outputs \<and>
     dom outputs = {''rgb_coarse'', ''rgb_fine'', ''accumulation_coarse'',
        ''accumulation_fine'', ''depth_coarse'', ''depth_fine''} \<and>
     outputs ''rgb_fine'' = Some [[1, 1, 1]]"
proof -
  obtain g nxt' c f where
    pm: "populate_modules example_args 0 = Inr (g, nxt')" and
    su: "sampler_uniform g =
       \<lparr>sampler_near_plane = 2, sampler_far_plane = 6, sampler_num_samples = 4\<rparr>" and
    fc: "field_coarse g = Some c" and ff: "field_fine g = Some f" and
    rr: "renderer_rgb g = \<lparr>background_color = Some WHITE\<rparr>"
    using example_graph by blast
  define outputs where "outputs = Map.empty(''rgb_coarse'' \<mapsto> [[1, 1, 1::real]],
          ''rgb_fine'' \<mapsto> [[1, 1, 1]],
          ''accumulation_coarse'' \<mapsto> [[0]], ''accumulation_fine'' \<mapsto> [[0]],
          ''depth_coarse'' \<mapsto> [[0]], ''depth_fine'' \<mapsto> [[0]])"
  have out: "get_outputs example_collaborators g example_store example_bundle = Inr outputs"
    unfolding outputs_def by (rule example_get_outputs[OF su fc ff rr])
  note stages = get_outputs_two_stages[of example_collaborators g example_store example_bundle
      outputs]
  from stages[THEN conjunct1] out
  have two: "two_stages example_collaborators g example_store example_bundle = Inr outputs"
    by simp
  have keys: "dom outputs = {''rgb_coarse'', ''rgb_fine'', ''accumulation_coarse'',
        ''accumulation_fine'', ''depth_coarse'', ''depth_fine''}"
    using stages[THEN conjunct2, THEN conjunct2] out by (rule mp)
  have fine: "outputs ''rgb_fine'' = Some [[1, 1, 1]]"
    unfolding outputs_def by simp
  from pm out two keys fine show ?thesis by blast
qed

subsection \<open>A ray through empty space\<close>

lemma weights_from_zero:
  "list_all (\<lambda>a. a = 0) as \<Longrightarrow> list_all (\<lambda>w. w = 0) (weights_from T as)"
  by (induction as arbitrary: T) simp_all

lemma ray_weights_zero:
  assumes "list_all (\<lambda>d. d = [0]) dens"
  shows "list_all (\<lambda>w. w = 0) (ray_weights starts ends dens)"
proof -
  have "list_all (\<lambda>a. a = 0)
          (map (\<lambda>(d, s, e). alpha (hd d) (e - s)) (zip dens (zip starts ends)))"
    using assms by (auto simp: list_all_iff alpha_def dest!: set_zip_leftD)
  then show ?thesis unfolding ray_weights_def by (rule weights_from_zero)
qed

lemma weighted_sum_zero: "list_all (\<lambda>w. w = 0) ws \<Longrightarrow> weighted_sum ws xs = 0"
  unfolding weighted_sum_def
  by (induction ws arbitrary: xs) (auto simp: zip_Cons1 split: list.splits)

lemma sum_list_zero: "list_all (\<lambda>w. w = (0::real)) ws \<Longrightarrow> sum_list ws = 0"
  by (induction ws) simp_all

lemma render_ray_rgb_zero:
  "list_all (\<lambda>w. w = 0) ws \<Longrightarrow> render_ray_rgb (Some WHITE) rgb ws = [1, 1, 1]"
  by (simp add: render_ray_rgb_def weighted_sum_zero sum_list_zero WHITE_def upt_conv_Cons)

lemma get_weights_one_ray:
  assumes "get_weights rs [dens] = Inr w" "list_all (\<lambda>d. d = [0]) dens"
  shows "\<exists>ws. w = [ws] \<and> list_all (\<lambda>x. x = 0) ws"
proof -
  from assms(1) obtain s e where s: "bin_starts rs = [s]" and e: "bin_ends rs = [e]"
    by (auto simp: get_weights_def list_all2_Cons1 split: if_splits)
  from assms(1) have "w = [ray_weights s e dens]"
    by (auto simp: get_weights_def s e split: if_splits)
  with ray_weights_zero[OF assms(2)] show ?thesis by simp
qed

text \<open>
  Claim C4. A graph populated with near plane 2, far plane 6 and 4 coarse samples renders
  on a white background. When the coarse field returns zero density at the four samples of
  the one ray, and \<open>get_outputs\<close> returns, the coarse colour is white \<open>(1,1,1)\<close>, the coarse
  accumulation is 0 and the coarse depth is 0.
\<close>

theorem get_outputs_zero_density:
  assumes g: "populate_modules \<lparr>near_plane = 2, far_plane = 6, num_coarse_samples = 4,
                 num_importance_samples = n_importance\<rparr> nxt = Inr (g, nxt')"
    and us: "UniformSampler_forward env (sampler_uniform g) ray_bundle = Inr uniform_ray_samples"
    and cf: "call_field env (field_coarse g) st uniform_ray_samples = Inr coarse_field_outputs"
    and zero: "coarse_field_outputs DENSITY = Some [[[0], [0], [0], [0]]]"
    and out: "get_outputs env g st ray_bundle = Inr outputs"
  shows "outputs ''rgb_coarse'' = Some [[1, 1, 1]] \<and>
         outputs ''accumulation_coarse'' = Some [[0]] \<and>
         outputs ''depth_coarse'' = Some [[0]]"
proof -
  from g have bg: "renderer_rgb g = \<lparr>background_color = Some WHITE\<rparr>"
    by (auto simp: populate_modules_def bind_eq_Inr Let_def)
  from out us cf zero obtain cw crgb r a d where
    cw: "get_weights uniform_ray_samples [[[0], [0], [0], [0]]] = Inr cw" and
    r: "RGBRenderer_forward (renderer_rgb g) crgb cw = Inr r" and
    a: "AccumulationRenderer_forward (renderer_accumulation g) cw = Inr a" and
    d: "DepthRenderer_forward (renderer_depth g) cw (ts uniform_ray_samples) = Inr d" and
    o1: "outputs ''rgb_coarse'' = Some r" and
    o2: "outputs ''accumulation_coarse'' = Some a" and
    o3: "outputs ''depth_coarse'' = Some d"
    unfolding get_outputs_eq_Inr by auto
  from get_weights_one_ray[OF cw] obtain ws
    where ws: "cw = [ws]" and z: "list_all (\<lambda>x. x = 0) ws"
    by auto
  from r have "r = [[1, 1, 1]]"
    unfolding bg ws
    by (auto simp: RGBRenderer_forward_def list_all2_Cons2 render_ray_rgb_zero[OF z]
        split: if_splits)
  moreover from a have "a = [[0]]"
    unfolding ws by (auto simp: AccumulationRenderer_forward_def sum_list_zero[OF z])
  moreover from d have "d = [[0]]"
    unfolding ws
    by (auto simp: DepthRenderer_forward_def list_all2_Cons1 weighted_sum_zero[OF z]
        split: if_splits)
  ultimately show ?thesis using o1 o2 o3 by simp
qed

theorem get_outputs_zero_density_witness:
  "\<exists>g nxt' coarse_field_outputs outputs.
     populate_modules \<lparr>near_plane = 2, far_plane = 6, num_coarse_samples = 4,
        num_importance_samples = 8\<rparr> 0 = Inr (g, nxt') \<and>
     UniformSampler_forward example_collaborators (sampler_uniform g) example_bundle =
       Inr example_samples \<and>
     call_field example_collaborators (field_coarse g) example_store example_samples =
       Inr coarse_field_outputs \<and>
     coarse_field_outputs DENSITY = Some [[[0], [0], [0], [0]]] \<and>
     get_outputs example_collaborators g example_store example_bundle = Inr outputs \<and>
     outputs ''rgb_coarse'' = Some [[1, 1, 1]] \<and>
     outputs ''accumulation_coarse'' = Some [[0]] \<and>
     outputs ''depth_coarse'' = Some [[0]]"
proof -
  obtain g nxt' c f where
    pm: "populate_modules example_args 0 = Inr (g, nxt')" and
    su: "sampler_uniform g =
       \<lparr>sampler_near_plane = 2, sampler_far_plane = 6, sampler_num_samples = 4\<rparr>" and
    fc: "field_coarse g = Some c" and ff: "field_fine g = Some f" and
    rr: "renderer_rgb g = \<lparr>background_color = Some WHITE\<rparr>"
    using example_graph by blast
  define cfo where "cfo = Map.empty(RGB \<mapsto> [[[0, 0, 1], [0, 0, 1], [0, 0, 1], [0, 0, 1::real]]],
                    DENSITY \<mapsto> [[[0], [0], [0], [0]]])"
  from pm have pm': "populate_modules \<lparr>near_plane = 2, far_plane = 6, num_coarse_samples = 4,
        num_importance_samples = 8\<rparr> 0 = Inr (g, nxt')"
    by (simp add: example_args_def)
  have us: "UniformSampler_forward example_collaborators (sampler_uniform g) example_bundle =
       Inr example_samples"
    unfolding su using example_sampler by (simp add: example_collaborators_def)
  have cf: "call_field example_collaborators (field_coarse g) example_store example_samples =
       Inr cfo"
    unfolding cfo_def fc by (simp add: call_field_def example_forward_samples)
  have zero: "cfo DENSITY = Some [[[0], [0], [0], [0]]]"
    unfolding cfo_def by simp
  obtain outputs where
    out: "get_outputs example_collaborators g example_store example_bundle = Inr outputs"
    using example_get_outputs[OF su fc ff rr] by blast
  from get_outputs_zero_density[OF pm' us cf zero out] pm' us cf zero out
  show ?thesis by blast
qed

subsection \<open>The state around a forward call\<close>

lemma keeps_then_call:
  "keeps_graph m \<Longrightarrow> (\<And>x. keeps_graph (f x)) \<Longrightarrow> keeps_graph (then_call m f)"
  unfolding keeps_graph_def then_call_def
  by (auto split: prod.splits sum.splits) (metis snd_conv)+

lemma keeps_reader: "keeps_graph (reader k)"
  by (simp add: keeps_graph_def reader_def)

lemma keeps_compute: "keeps_graph (compute r)"
  by (simp add: compute_def keeps_reader)

lemma keeps_read_attribute: "keeps_graph (read_attribute a)"
  by (simp add: read_attribute_def keeps_reader)

lemma keeps_forward: "read_only eff \<Longrightarrow> keeps_graph (forward_on_heap eff self rs)"
  unfolding forward_on_heap_def Let_def read_only_def
  by (intro keeps_then_call keeps_compute) simp_all

lemma keeps_call_field: "read_only eff \<Longrightarrow> keeps_graph (call_field_on_heap eff f rs)"
  by (cases f) (simp_all add: call_field_on_heap_def keeps_compute keeps_forward)

lemma keeps_get_outputs: "read_only eff \<Longrightarrow> keeps_graph (get_outputs_on_heap eff rb)"
  unfolding get_outputs_on_heap_def
  by (intro keeps_then_call keeps_compute keeps_read_attribute keeps_call_field)
     (simp_all add: read_only_def)

lemma then_call_reader:
  "then_call (reader k) (\<lambda>x. reader (f x)) = reader (\<lambda>h. bind (k h) (\<lambda>x. f x h))"
  by (auto simp: then_call_def reader_def bind_def fun_eq_iff split: sum.splits)

lemma forward_on_heap_pure:
  "forward_on_heap (on_heap env) self rs = reader (\<lambda>h. forward env self (heap_store h) rs)"
  unfolding forward_on_heap_def forward_def on_heap_def Let_def compute_def
  by (simp add: then_call_reader)

lemma call_field_on_heap_pure:
  "call_field_on_heap (on_heap env) f rs = reader (\<lambda>h. call_field env f (heap_store h) rs)"
  by (cases f) (simp_all add: call_field_on_heap_def call_field_def forward_on_heap_pure compute_def)

lemma get_outputs_on_heap_pure:
  "get_outputs_on_heap (on_heap env) rb =
     reader (\<lambda>h. get_outputs env (heap_graph h) (heap_store h) rb)"
  unfolding get_outputs_on_heap_def get_outputs_def compute_def read_attribute_def
    call_field_on_heap_pure
  by (simp add: then_call_reader on_heap_def bind_Inr)

lemma example_effects_read_only: "read_only example_effects"
  by (simp add: read_only_def example_effects_def on_heap_def keeps_reader)
     (simp add: keeps_graph_def)

lemma example_forward_on_heap:
  "forward_on_heap example_effects fld example_samples h =
     (Inr (Map.empty(RGB \<mapsto> [[[0, 0, 1], [0, 0, 1], [0, 0, 1], [0, 0, 1]]],
                    DENSITY \<mapsto> [[[0], [0], [0], [0]]])), h)"
  by (simp add: forward_on_heap_def example_effects_def on_heap_def then_call_def reader_def
      compute_def example_collaborators_def torch_cat_last_def example_samples_def)

lemma example_get_outputs_on_heap:
  assumes "sampler_uniform g =
      \<lparr>sampler_near_plane = 2, sampler_far_plane = 6, sampler_num_samples = 4\<rparr>"
    "field_coarse g = Some c" "field_fine g = Some f"
    "renderer_rgb g = \<lparr>background_color = Some WHITE\<rparr>"
  shows "get_outputs_on_heap example_effects example_bundle
           \<lparr>heap_graph = g, heap_store = example_store, heap_other = 0\<rparr> =
     (Inr (Map.empty(''rgb_coarse'' \<mapsto> [[1, 1, 1]], ''rgb_fine'' \<mapsto> [[1, 1, 1]],
          ''accumulation_coarse'' \<mapsto> [[0]], ''accumulation_fine'' \<mapsto> [[0]],
          ''depth_coarse'' \<mapsto> [[0]], ''depth_fine'' \<mapsto> [[0]])),
      \<lparr>heap_graph = g, heap_store = example_store, heap_other = 2\<rparr>)"
proof -
  have us: "UniformSampler_call example_effects
      \<lparr>sampler_near_plane = 2, sampler_far_plane = 6, sampler_num_samples = 4\<rparr> example_bundle h =
      (Inr example_samples, h\<lparr>heap_other := heap_other h + 1\<rparr>)" for h
    using example_sampler by (simp add: example_effects_def example_collaborators_def)
  have pdf: "PDFSampler_call example_effects s example_samples w h =
      (Inr example_samples, h\<lparr>heap_other := heap_other h + 1\<rparr>)" for s w h
    by (simp add: example_effects_def example_collaborators_def)
  have r: "RGBRenderer_forward \<lparr>background_color = Some WHITE\<rparr>
      [[[0, 0, 1], [0, 0, 1], [0, 0, 1], [0, 0, 1]]] [[0, 0, 0, 0]] = Inr [[1, 1, 1]]"
    by (simp add: RGBRenderer_forward_def render_ray_rgb_def weighted_sum_def WHITE_def
        upt_conv_Cons)
  have a: "AccumulationRenderer_forward x [[0, 0, 0, 0]] = Inr [[0]]" for x
    by (simp add: AccumulationRenderer_forward_def)
  have d: "DepthRenderer_forward x [[0, 0, 0, 0]] (ts example_samples) = Inr [[0]]" for x
    by (simp add: DepthRenderer_forward_def weighted_sum_def example_samples_def)
  show ?thesis
    unfolding get_outputs_on_heap_def
    by (simp add: then_call_def reader_def read_attribute_def compute_def assms us pdf
        call_field_on_heap_def example_forward_on_heap getitem_def example_weights r a d)
qed

text \<open>
  Claim C9. When the calls of the collaborators keep the graph object and the values of
  the parameters, so does \<open>get_outputs\<close>, whether it returns or raises: the fields, the
  values of their parameters, the samplers and the renderers after the call are those
  before it. With the collaborators of the functional model the whole heap is unchanged and
  the result is the one of \<open>get_outputs\<close> on the graph and the store of the heap.
\<close>

theorem get_outputs_frame:
  "(read_only eff \<and> get_outputs_on_heap eff ray_bundle h = (result, h') \<longrightarrow>
      heap_graph h' = heap_graph h \<and> heap_store h' = heap_store h \<and>
      field_coarse (heap_graph h') = field_coarse (heap_graph h) \<and>
      field_fine (heap_graph h') = field_fine (heap_graph h) \<and>
      (\<forall>fld. fld \<in> set_option (field_coarse (heap_graph h)) \<union>
                   set_option (field_fine (heap_graph h)) \<longrightarrow>
         map (heap_store h') (parameters fld) = map (heap_store h) (parameters fld)) \<and>
      sampler_uniform (heap_graph h') = sampler_uniform (heap_graph h) \<and>
      sampler_pdf (heap_graph h') = sampler_pdf (heap_graph h) \<and>
      renderer_rgb (heap_graph h') = renderer_rgb (heap_graph h) \<and>
      renderer_accumulation (heap_graph h') = renderer_accumulation (heap_graph h) \<and>
      renderer_depth (heap_graph h') = renderer_depth (heap_graph h)) \<and>
   get_outputs_on_heap (on_heap env) ray_bundle h =
     (get_outputs env (heap_graph h) (heap_store h) ray_bundle, h)"
proof
  show "get_outputs_on_heap (on_heap env) ray_bundle h =
     (get_outputs env (heap_graph h) (heap_store h) ray_bundle, h)"
    by (simp add: get_outputs_on_heap_pure reader_def)
next
  show "read_only eff \<and> get_outputs_on_heap eff ray_bundle h = (result, h') \<longrightarrow>
      heap_graph h' = heap_graph h \<and> heap_store h' = heap_store h \<and>
      field_coarse (heap_graph h') = field_coarse (heap_graph h) \<and>
      field_fine (heap_graph h') = field_fine (heap_graph h) \<and>
      (\<forall>fld. fld \<in> set_option (field_coarse (heap_graph h)) \<union>
                   set_option (field_fine (heap_graph h)) \<longrightarrow>
         map (heap_store h') (parameters fld) = map (heap_store h) (parameters fld)) \<and>
      sampler_uniform (heap_graph h') = sampler_uniform (heap_graph h) \<and>
      sampler_pdf (heap_graph h') = sampler_pdf (heap_graph h) \<and>
      renderer_rgb (heap_graph h') = renderer_rgb (heap_graph h) \<and>
      renderer_accumulation (heap_graph h') = renderer_accumulation (heap_graph h) \<and>
      renderer_depth (heap_graph h') = renderer_depth (heap_graph h)"
  proof
    assume a: "read_only eff \<and> get_outputs_on_heap eff ray_bundle h = (result, h')"
    then have "keeps_graph (get_outputs_on_heap eff ray_bundle)"
      by (simp add: keeps_get_outputs)
    then have "heap_graph (snd (get_outputs_on_heap eff ray_bundle h)) = heap_graph h"
      and "heap_store (snd (get_outputs_on_heap eff ray_bundle h)) = heap_store h"
      unfolding keeps_graph_def by simp_all
    with a have "heap_graph h' = heap_graph h" and "heap_store h' = heap_store h"
      by simp_all
    then show "heap_graph h' = heap_graph h \<and> heap_store h' = heap_store h \<and>
      field_coarse (heap_graph h') = field_coarse (heap_graph h) \<and>
      field_fine (heap_graph h') = field_fine (heap_graph h) \<and>
      (\<forall>fld. fld \<in> set_option (field_coarse (heap_graph h)) \<union>
                   set_option (field_fine (heap_graph h)) \<longrightarrow>
         map (heap_store h') (parameters fld) = map (heap_store h) (parameters fld)) \<and>
      sampler_uniform (heap_graph h') = sampler_uniform (heap_graph h) \<and>
      sampler_pdf (heap_graph h') = sampler_pdf (heap_graph h) \<and>
      renderer_rgb (heap_graph h') = renderer_rgb (heap_graph h) \<and>
      renderer_accumulation (heap_graph h') = renderer_accumulation (heap_graph h) \<and>
      renderer_depth (heap_graph h') = renderer_depth (heap_graph h)"
      by simp
  qed
qed

theorem get_outputs_frame_witness:
  "read_only example_effects \<and>
   (\<exists>g nxt' result h'.
      populate_modules example_args 0 = Inr (g, nxt') \<and>
      get_outputs_on_heap example_effects example_bundle
        \<lparr>heap_graph = g, heap_store = example_store, heap_other = 0\<rparr> = (result, h') \<and>
      heap_graph h' = g \<and> heap_store h' = example_store \<and> heap_other h' = 2 \<and>
      get_outputs_on_heap (on_heap example_collaborators) example_bundle
        \<lparr>heap_graph = g, heap_store = example_store, heap_other = 0::nat\<rparr> =
      (get_outputs example_collaborators g example_store example_bundle,
       \<lparr>heap_graph = g, heap_store = example_store, heap_other = 0\<rparr>))"
proof -
  obtain g nxt' c f where
    pm: "populate_modules example_args 0 = Inr (g, nxt')" and
    su: "sampler_uniform g =
       \<lparr>sampler_near_plane = 2, sampler_far_plane = 6, sampler_num_samples = 4\<rparr>" and
    fc: "field_coarse g = Some c" and ff: "field_fine g = Some f" and
    rr: "renderer_rgb g = \<lparr>background_color = Some WHITE\<rparr>"
    using example_graph by blast
  let ?h = "\<lparr>heap_graph = g, heap_store = example_store, heap_other = 0::nat\<rparr>"
  note run = example_get_outputs_on_heap[OF su fc ff rr]
  note frame = get_outputs_frame[of example_effects example_bundle ?h _ _ example_collaborators]
  from frame[THEN conjunct1] run example_effects_read_only
  have "heap_graph \<lparr>heap_graph = g, heap_store = example_store, heap_other = 2::nat\<rparr> = g"
    by simp
  moreover from frame[THEN conjunct2]
  have "get_outputs_on_heap (on_heap example_collaborators) example_bundle ?h =
      (get_outputs example_collaborators g example_store example_bundle, ?h)"
    by simp
  ultimately show ?thesis
    using pm run example_effects_read_only by auto
qed

subsection \<open>The losses\<close>

text \<open>
  Claim C7. \<open>get_loss_dict\<close> returns exactly when the outputs hold \<open>rgb_coarse\<close> and
  \<open>rgb_fine\<close>, the batch holds \<open>pixels\<close>, and the loss and the aggregation return. Its result
  then has three entries: the loss of the graph's loss module between the pixels and the
  coarse colour, the loss between the same pixels and the fine colour, and the aggregation
  of the dictionary of these two terms.
\<close>

theorem get_loss_dict_terms:
  "get_loss_dict env self outputs batch = Inr loss_dict \<longleftrightarrow>
     (\<exists>pixels rgb_coarse rgb_fine rgb_loss_coarse rgb_loss_fine aggregated_loss.
        outputs ''rgb_coarse'' = Some rgb_coarse \<and>
        batch ''pixels'' = Some pixels \<and>
        outputs ''rgb_fine'' = Some rgb_fine \<and>
        MSELoss_forward env (rgb_loss self) pixels rgb_coarse = Inr rgb_loss_coarse \<and>
        MSELoss_forward env (rgb_loss self) pixels rgb_fine = Inr rgb_loss_fine \<and>
        get_aggregated_loss_from_loss_dict env
          (Map.empty(''rgb_loss_coarse'' \<mapsto> rgb_loss_coarse,
                     ''rgb_loss_fine'' \<mapsto> rgb_loss_fine)) = Inr aggregated_loss \<and>
        loss_dict = Map.empty(''rgb_loss_coarse'' \<mapsto> rgb_loss_coarse,
                              ''rgb_loss_fine'' \<mapsto> rgb_loss_fine,
                              ''aggregated_loss'' \<mapsto> aggregated_loss))"
  unfolding get_loss_dict_def bind_eq_Inr getitem_eq_Inr Let_def
  apply (simp only: sum.inject ex_simps)
  apply (rule iffI)
   apply (elim exE conjE)
   apply (simp only: option.inject)
   apply blast
  apply (elim exE conjE)
  apply blast
  done

theorem get_loss_dict_terms_witness:
  "\<exists>g nxt'.
     populate_modules example_args 0 = Inr (g, nxt') \<and>
     get_loss_dict example_collaborators g
       (Map.empty(''rgb_coarse'' \<mapsto> [[1, 1, 1]], ''rgb_fine'' \<mapsto> [[1, 0, 1]]))
       (Map.empty(''pixels'' \<mapsto> [[1, 1, 1]])) =
     Inr (Map.empty(''rgb_loss_coarse'' \<mapsto> 0, ''rgb_loss_fine'' \<mapsto> 1 / 3,
                    ''aggregated_loss'' \<mapsto> 1 / 3))"
proof -
  obtain g nxt' where pm: "populate_modules example_args 0 = Inr (g, nxt')"
    using example_graph by blast
  have "get_loss_dict example_collaborators g
       (Map.empty(''rgb_coarse'' \<mapsto> [[1, 1, 1]], ''rgb_fine'' \<mapsto> [[1, 0, 1]]))
       (Map.empty(''pixels'' \<mapsto> [[1, 1, 1]])) =
     Inr (Map.empty(''rgb_loss_coarse'' \<mapsto> 0, ''rgb_loss_fine'' \<mapsto> 1 / 3,
                    ''aggregated_loss'' \<mapsto> 1 / 3))"
    unfolding get_loss_dict_terms
    by (simp add: example_collaborators_def)
  with pm show ?thesis by blast
qed

end
